theory Spec2Isabelle
  imports Complex_Main
begin

section \<open>JavaScript values used by the handlers\<close>

text \<open>
  The backend is an Express application over a Mongoose store. Strings are ASCII
  strings. A value that may be \<^verbatim>\<open>undefined\<close> is an option; the truthiness test
  \<^verbatim>\<open>if (s)\<close> on such a value holds for a defined, non-empty string.
\<close>

definition truthy :: "string option \<Rightarrow> bool" where
  "truthy v = (case v of None \<Rightarrow> False | Some s \<Rightarrow> s \<noteq> [])"

text \<open>\<^verbatim>\<open>s.startsWith(p)\<close>.\<close>

fun startsWith :: "string \<Rightarrow> string \<Rightarrow> bool" where
  "startsWith s [] = True"
| "startsWith [] (p # ps) = False"
| "startsWith (c # cs) (p # ps) = (c = p \<and> startsWith cs ps)"

text \<open>\<^verbatim>\<open>s.split(c)\<close> for a one-character separator: every occurrence of the
  separator ends a piece, so two separators in a row give an empty piece.\<close>

fun split :: "char \<Rightarrow> string \<Rightarrow> string list" where
  "split c [] = [[]]"
| "split c (x # xs) =
     (if x = c then [] # split c xs
      else (case split c xs of [] \<Rightarrow> [[x]] | w # ws \<Rightarrow> (x # w) # ws))"

text \<open>\<^verbatim>\<open>xs[i]\<close>: \<^verbatim>\<open>undefined\<close> out of range.\<close>

fun index :: "'a list \<Rightarrow> nat \<Rightarrow> 'a option" where
  "index [] i = None"
| "index (x # xs) 0 = Some x"
| "index (x # xs) (Suc i) = index xs i"

text \<open>\<^verbatim>\<open>s.trim()\<close> on ASCII whitespace.\<close>

definition isSpace :: "char \<Rightarrow> bool" where
  "isSpace c = (c = CHR '' '' \<or> c = CHR 0x09 \<or> c = CHR 0x0A \<or> c = CHR 0x0B
              \<or> c = CHR 0x0C \<or> c = CHR 0x0D)"

definition trim :: "string \<Rightarrow> string" where
  "trim s = rev (dropWhile isSpace (rev (dropWhile isSpace s)))"

text \<open>\<^verbatim>\<open>xs.findIndex(p)\<close>: the index of the first element satisfying \<open>p\<close>, or -1.\<close>

fun findIndex :: "('a \<Rightarrow> bool) \<Rightarrow> 'a list \<Rightarrow> int" where
  "findIndex p [] = - 1"
| "findIndex p (x # xs) =
     (if p x then 0 else (let i = findIndex p xs in if i = - 1 then - 1 else i + 1))"

text \<open>\<^verbatim>\<open>xs.splice(i, 1)\<close> for an index \<open>i \<ge> 0\<close>: the list without its element \<open>i\<close>.\<close>

definition splice1 :: "int \<Rightarrow> 'a list \<Rightarrow> 'a list" where
  "splice1 i xs = take (nat i) xs @ drop (nat i + 1) xs"

text \<open>
  Numbers that reach a response: the handlers divide a count by the \<^verbatim>\<open>limit\<close>
  parameter, so a quotient may be \<^verbatim>\<open>Infinity\<close> or \<^verbatim>\<open>NaN\<close>. Counts and the
  parameters modelled are integers far below \<open>2^53\<close>, where the arithmetic of doubles
  on them is exact.
\<close>

datatype jsnum = Num int | Infinity | NaN

text \<open>\<^verbatim>\<open>Math.ceil(total / limit)\<close> for a count \<open>n\<close> and an integer
  \<open>limit\<close>.\<close>

definition ceil_div :: "nat \<Rightarrow> int \<Rightarrow> jsnum" where
  "ceil_div n limit =
     (if limit = 0 then (if n = 0 then NaN else Infinity)
      else Num \<lceil>rat_of_nat n / rat_of_int limit\<rceil>)"

section \<open>Object ids\<close>

text \<open>
  A document's \<^verbatim>\<open>_id\<close> is an ObjectId; \<^verbatim>\<open>toString()\<close> gives its 24 lower-case
  hexadecimal digits, and that string stands for the ObjectId here. The store casts a
  string to an ObjectId when it is 24 hexadecimal digits of either case, and raises a
  CastError otherwise.
\<close>

type_synonym objectId = string

definition isHexDigit :: "char \<Rightarrow> bool" where
  "isHexDigit c = (c \<in> set ''0123456789abcdefABCDEF'')"

definition lowerHex :: "char \<Rightarrow> char" where
  "lowerHex c =
     (if c = CHR ''A'' then CHR ''a'' else if c = CHR ''B'' then CHR ''b''
      else if c = CHR ''C'' then CHR ''c'' else if c = CHR ''D'' then CHR ''d''
      else if c = CHR ''E'' then CHR ''e'' else if c = CHR ''F'' then CHR ''f'' else c)"

definition castObjectId :: "string \<Rightarrow> objectId option" where
  "castObjectId s =
     (if length s = 24 \<and> list_all isHexDigit s then Some (map lowerHex s) else None)"

datatype store_error = CastError | StoreError

section \<open>Principals\<close>

text \<open>
  Modelled from the spec: the User schema (models/User.js) is not among the sources. A
  principal has an identity, a credential hash, a role and an \<open>isActive\<close> flag. The
  password is an option: \<^verbatim>\<open>select('-password')\<close> returns the document without
  that field.
\<close>

record document =
  oid :: objectId

record user = document +
  name :: string
  email :: string
  password :: "string option"
  role :: string
  isActive :: bool

definition select_minus_password :: "user \<Rightarrow> user" where
  "select_minus_password u = u\<lparr>password := None\<rparr>"

text \<open>\<^verbatim>\<open>Model.findById(id)\<close>: cast the id, then the document with that \<^verbatim>\<open>_id\<close>.\<close>

definition findById ::
  "'a document_scheme list \<Rightarrow> string \<Rightarrow> store_error + 'a document_scheme option" where
  "findById ds s =
     (case castObjectId s of
        None \<Rightarrow> Inl CastError
      | Some i \<Rightarrow> Inr (find (\<lambda>d. oid d = i) ds))"

section \<open>Responses\<close>

record verror =
  path :: string
  msg :: string

record 'a response =
  status :: nat
  success :: bool
  message :: "string option"
  errors :: "verror list"
  data :: "'a option"

definition fail :: "nat \<Rightarrow> string \<Rightarrow> 'a response" where
  "fail code m = \<lparr>status = code, success = False, message = Some m, errors = [], data = None\<rparr>"

definition ok :: "'a \<Rightarrow> 'a response" where
  "ok d = \<lparr>status = 200, success = True, message = None, errors = [], data = Some d\<rparr>"

definition ok_message :: "string \<Rightarrow> 'a option \<Rightarrow> 'a response" where
  "ok_message m d = \<lparr>status = 200, success = True, message = Some m, errors = [], data = d\<rparr>"

definition validation_failed :: "verror list \<Rightarrow> 'a response" where
  "validation_failed es =
     \<lparr>status = 400, success = False, message = Some ''Validation failed'', errors = es,
      data = None\<rparr>"

section \<open>Authentication middleware (middleware/auth.js)\<close>

record request =
  cookies_token :: "string option"
  authorization :: "string option"

datatype jwt_error = TokenExpiredError | JsonWebTokenError

record decoded =
  decoded_id :: string

text \<open>
  The token is read from the cookie first, then from the Authorization header. The
  result is the value of the variable \<^verbatim>\<open>token\<close>, which may be undefined.
\<close>

definition token_of :: "request \<Rightarrow> string option" where
  "token_of req =
     (if truthy (cookies_token req) then cookies_token req
      else (case authorization req of
              None \<Rightarrow> None
            | Some h \<Rightarrow>
                if h \<noteq> [] \<and> startsWith h ''Bearer'' then index (split CHR '' '' h) 1
                else None))"

text \<open>
  \<open>protect\<close>: \<open>Inl\<close> is the response that ends the request, \<open>Inr\<close> the principal
  attached to the request when \<^verbatim>\<open>next()\<close> is called. \<open>verifyToken\<close> is
  \<^verbatim>\<open>jwt.verify\<close> with the configured secret: it returns the payload or throws. Every
  exception inside the body, the CastError of the lookup included, ends in the catch
  branch.
\<close>

definition protect ::
  "(string \<Rightarrow> jwt_error + decoded) \<Rightarrow> user list \<Rightarrow> request \<Rightarrow> 'a response + user" where
  "protect verifyToken us req =
     (case token_of req of
        None \<Rightarrow> Inl (fail 401 ''Access denied. No token provided.'')
      | Some token \<Rightarrow>
          if token = [] then Inl (fail 401 ''Access denied. No token provided.'')
          else (case verifyToken token of
                  Inl e \<Rightarrow> Inl (fail 401 ''Token is invalid or expired.'')
                | Inr d \<Rightarrow>
                    (case findById us (decoded_id d) of
                       Inl e \<Rightarrow> Inl (fail 401 ''Token is invalid or expired.'')
                     | Inr None \<Rightarrow> Inl (fail 401 ''Token is invalid. User not found.'')
                     | Inr (Some u) \<Rightarrow>
                         if \<not> isActive u
                         then Inl (fail 401
                                ''Account is deactivated. Please contact administrator.'')
                         else Inr (select_minus_password u))))"

text \<open>\<open>adminOnly\<close> on \<^verbatim>\<open>req.user\<close>: \<open>None\<close> is \<^verbatim>\<open>next()\<close>.\<close>

definition adminOnly :: "user option \<Rightarrow> 'a response option" where
  "adminOnly ru =
     (case ru of
        Some u \<Rightarrow> if role u = ''admin'' then None
                  else Some (fail 403 ''Access denied. Admin privileges required.'')
      | None \<Rightarrow> Some (fail 403 ''Access denied. Admin privileges required.''))"

text \<open>
  \<open>optionalAuth\<close> has the same result type as \<open>protect\<close>, with \<^verbatim>\<open>req.user\<close>
  possibly unset when \<^verbatim>\<open>next()\<close> is called. Both of its paths end in \<^verbatim>\<open>next()\<close>.
\<close>

definition optionalAuth ::
  "(string \<Rightarrow> jwt_error + decoded) \<Rightarrow> user list \<Rightarrow> request \<Rightarrow> 'a response + user option" where
  "optionalAuth verifyToken us req =
     (case token_of req of
        None \<Rightarrow> Inr None
      | Some token \<Rightarrow>
          if token = [] then Inr None
          else (case verifyToken token of
                  Inl e \<Rightarrow> Inr None
                | Inr d \<Rightarrow>
                    (case findById us (decoded_id d) of
                       Inl e \<Rightarrow> Inr None
                     | Inr None \<Rightarrow> Inr None
                     | Inr (Some u) \<Rightarrow>
                         if isActive u then Inr (Some (select_minus_password u))
                         else Inr None)))"

definition isAdmin :: "user option \<Rightarrow> bool" where
  "isAdmin ru = (case ru of None \<Rightarrow> False | Some u \<Rightarrow> role u = ''admin'')"

section \<open>Collections and the store\<close>

text \<open>
  Education and Project documents share the fields the handlers below read
  (models/Education.js, models/Project.js); the fields no handler reads or writes by name
  are left out. Documents of a collection have distinct ids. A stored document is taken
  to be well formed: its \<^verbatim>\<open>isVisible\<close> is a boolean (the schemas default it to
  \<^verbatim>\<open>true\<close>), and each entry of a project's \<^verbatim>\<open>likes\<close> has a \<^verbatim>\<open>userId\<close>,
  as the like route writes it; a document stored with \<^verbatim>\<open>isVisible\<close> null or a like
  without \<^verbatim>\<open>userId\<close> is outside the model.
\<close>

record showcase = document +
  isVisible :: bool
  sortOrder :: int
  createdBy :: objectId

record education = showcase +
  institution :: string
  degree :: string
  fieldOfStudy :: string
  e_type :: string

record like =
  userId :: objectId
  timestamp :: nat

record project = showcase +
  title :: string
  description :: string
  category :: string
  technologies :: "string list"
  tags :: "string list"
  p_status :: string
  isFeatured :: bool
  views :: int
  likes :: "like list"

record contact = document +
  c_name :: string
  c_email :: string
  c_subject :: string
  c_message :: string
  c_phone :: "string option"
  c_status :: string
  c_priority :: string
  c_ipAddress :: "string option"

record store =
  users :: "user list"
  educations :: "education list"
  projects :: "project list"
  contacts :: "contact list"

text \<open>\<^verbatim>\<open>doc.save()\<close> of a document read from the collection: it replaces the stored
  document with the same \<^verbatim>\<open>_id\<close>.\<close>

definition save :: "'a document_scheme \<Rightarrow> 'a document_scheme list \<Rightarrow> 'a document_scheme list" where
  "save d ds = map (\<lambda>x. if oid x = oid d then d else x) ds"

text \<open>\<^verbatim>\<open>Model.findByIdAndUpdate(id, update, {new: true})\<close>: the updated document, or
  \<^verbatim>\<open>null\<close> when there is none with that id.\<close>

definition findByIdAndUpdate ::
  "'a document_scheme list \<Rightarrow> string \<Rightarrow> ('a document_scheme \<Rightarrow> 'a document_scheme) \<Rightarrow>
   store_error + ('a document_scheme option \<times> 'a document_scheme list)" where
  "findByIdAndUpdate ds s upd =
     (case castObjectId s of
        None \<Rightarrow> Inl CastError
      | Some i \<Rightarrow>
          (case find (\<lambda>d. oid d = i) ds of
             None \<Rightarrow> Inr (None, ds)
           | Some d \<Rightarrow> Inr (Some (upd d), save (upd d) ds)))"

text \<open>\<^verbatim>\<open>Model.findByIdAndDelete(id)\<close>: the deleted document, or \<^verbatim>\<open>null\<close>.\<close>

definition findByIdAndDelete ::
  "'a document_scheme list \<Rightarrow> string \<Rightarrow>
   store_error + ('a document_scheme option \<times> 'a document_scheme list)" where
  "findByIdAndDelete ds s =
     (case castObjectId s of
        None \<Rightarrow> Inl CastError
      | Some i \<Rightarrow> Inr (find (\<lambda>d. oid d = i) ds, filter (\<lambda>d. oid d \<noteq> i) ds))"

text \<open>
  \<^verbatim>\<open>.sort(sort)\<close>: the store orders documents by a sort specification, a list of
  field names with a direction each. How two documents compare under a specification
  is the store's business and a parameter here; the sort is stable.
\<close>

type_synonym sort_spec = "(string \<times> int) list"

fun insert_by :: "('a \<Rightarrow> 'a \<Rightarrow> bool) \<Rightarrow> 'a \<Rightarrow> 'a list \<Rightarrow> 'a list" where
  "insert_by le x [] = [x]"
| "insert_by le x (y # ys) = (if le x y then x # y # ys else y # insert_by le x ys)"

definition sort_docs :: "('a \<Rightarrow> 'a \<Rightarrow> bool) \<Rightarrow> 'a list \<Rightarrow> 'a list" where
  "sort_docs le xs = foldr (insert_by le) xs []"

text \<open>
  \<^verbatim>\<open>.skip(k).limit(n)\<close>: the store refuses a negative skip; a limit of 0 is no limit,
  and a negative limit counts as its absolute value.
\<close>

definition skip_limit :: "int \<Rightarrow> int \<Rightarrow> 'a list \<Rightarrow> store_error + 'a list" where
  "skip_limit k n xs =
     (if k < 0 then Inl StoreError
      else Inr (if n = 0 then drop (nat k) xs else take (nat \<bar>n\<bar>) (drop (nat k) xs)))"

definition limit_docs :: "int \<Rightarrow> 'a list \<Rightarrow> 'a list" where
  "limit_docs n xs = (if n = 0 then xs else take (nat \<bar>n\<bar>) xs)"

text \<open>
  The parameters \<^verbatim>\<open>page\<close> and \<^verbatim>\<open>limit\<close> of the query string reach the handlers
  as strings; \<^verbatim>\<open>parseInt\<close> and the numeric coercion of the arithmetic turn them
  into doubles. They are modelled for requests that omit them or give a decimal integer
  of magnitude at most \<open>2^26\<close>. On such a string \<^verbatim>\<open>parseInt\<close> and the coercion
  agree and give that integer, and every number the handlers compute from the two
  parameters (\<^verbatim>\<open>page - 1\<close>, \<^verbatim>\<open>(page - 1) * limit\<close>) is an integer of magnitude
  below \<open>2^53\<close>, which a double holds exactly. A collection holds fewer than
  \<open>2^53\<close> documents, so the quotient of a count by such a limit has the ceiling of
  the exact quotient. Other values of the two parameters (fractions, text, larger
  integers) are outside this type.
\<close>

typedef param_int = "{n :: int. \<bar>n\<bar> \<le> 2 ^ 26}"
  by (rule exI [of _ 0]) simp

setup_lifting type_definition_param_int

lift_definition param_value :: "param_int \<Rightarrow> int" is "\<lambda>n. n" .

text \<open>The parameter values \<^verbatim>\<open>0\<close> and \<^verbatim>\<open>2\<close>.\<close>

lift_definition param_0 :: param_int is 0
  by simp

lift_definition param_2 :: param_int is 2
  by simp

text \<open>The query string. A parameter that is absent is \<open>None\<close>.\<close>

record query =
  q_page :: "param_int option"
  q_limit :: "param_int option"
  q_sortBy :: "string option"
  q_sortOrder :: "string option"
  q_search :: "string option"
  q_type :: "string option"
  q_category :: "string option"
  q_featured :: "string option"
  q_status :: "string option"
  q_priority :: "string option"
  q_role :: "string option"
  q_isActive :: "string option"
  q_isVisible :: "string option"

definition orDefault :: "'a option \<Rightarrow> 'a \<Rightarrow> 'a" where
  "orDefault v d = (case v of None \<Rightarrow> d | Some x \<Rightarrow> x)"

text \<open>A numeric parameter with its default.\<close>

definition intParam :: "param_int option \<Rightarrow> int \<Rightarrow> int" where
  "intParam v d = (case v of None \<Rightarrow> d | Some n \<Rightarrow> param_value n)"

definition direction :: "string \<Rightarrow> int" where
  "direction ord = (if ord = ''desc'' then - 1 else 1)"

text \<open>
  \<^verbatim>\<open>{ $regex: search, $options: 'i' }\<close>: the store compiles the pattern; \<open>None\<close> is
  a pattern it refuses. The regular expression engine is a parameter.
\<close>

type_synonym regex = "string \<Rightarrow> (string \<Rightarrow> bool) option"

text \<open>The compiled pattern of the \<^verbatim>\<open>search\<close> parameter, when the request has one;
  without one no pattern is compiled and the matcher is not used.\<close>

definition search_matcher :: "regex \<Rightarrow> query \<Rightarrow> (string \<Rightarrow> bool) option" where
  "search_matcher rx q =
     (case q_search q of
        None \<Rightarrow> Some (\<lambda>s. True)
      | Some pat \<Rightarrow> if pat = [] then Some (\<lambda>s. True) else rx pat)"

record pagination =
  pg_total :: nat
  pg_pages :: jsnum
  pg_page :: int
  pg_limit :: int

record 'd paged =
  docs :: "'d list"
  pagination :: pagination

text \<open>
  The tail the four paginated handlers share: the page query and the count query run
  on the same filter; \<open>matched\<close> are the documents the filter selects.
\<close>

definition paginate ::
  "('d \<Rightarrow> 'd \<Rightarrow> bool) \<Rightarrow> int \<Rightarrow> int \<Rightarrow> 'd list \<Rightarrow> store_error + 'd paged" where
  "paginate le page limit matched =
     (let skip = (page - 1) * limit in
      case skip_limit skip limit (sort_docs le matched) of
        Inl e \<Rightarrow> Inl e
      | Inr ds \<Rightarrow>
          Inr \<lparr>docs = ds,
               pagination = \<lparr>pg_total = length matched,
                              pg_pages = ceil_div (length matched) limit,
                              pg_page = page, pg_limit = limit\<rparr>\<rparr>)"


section \<open>Education routes (routes/education.js)\<close>

record education_query =
  eq_isVisible :: "bool option"
  eq_type :: "string option"
  eq_or :: "(string \<Rightarrow> bool) option"

definition Education_matches :: "education_query \<Rightarrow> education \<Rightarrow> bool" where
  "Education_matches f d =
     ((case eq_isVisible f of None \<Rightarrow> True | Some b \<Rightarrow> isVisible d = b) \<and>
      (case eq_type f of None \<Rightarrow> True | Some t \<Rightarrow> e_type d = t) \<and>
      (case eq_or f of None \<Rightarrow> True
       | Some m \<Rightarrow> m (institution d) \<or> m (degree d) \<or> m (fieldOfStudy d)))"

text \<open>GET /api/education, after \<open>optionalAuth\<close>; \<open>ru\<close> is \<^verbatim>\<open>req.user\<close>. The query is
  built first: only visible records for a caller who is not an admin.\<close>

definition Education_list_query :: "user option \<Rightarrow> query \<Rightarrow> education_query" where
  "Education_list_query ru q =
     \<lparr>eq_isVisible = (if isAdmin ru then None else Some True),
      eq_type = (if truthy (q_type q) then q_type q else None),
      eq_or = None\<rparr>"

text \<open>The sort object: the requested field first, then \<^verbatim>\<open>sortOrder\<close> ascending.\<close>

definition Education_list_sort :: "query \<Rightarrow> sort_spec" where
  "Education_list_sort q =
     (let sortBy = orDefault (q_sortBy q) ''startDate'';
          sortOrd = orDefault (q_sortOrder q) ''desc''
      in (sortBy, direction sortOrd) #
         (if sortBy \<noteq> ''sortOrder'' then [(''sortOrder'', 1)] else []))"

definition Education_list ::
  "(sort_spec \<Rightarrow> education \<Rightarrow> education \<Rightarrow> bool) \<Rightarrow> user option \<Rightarrow> query \<Rightarrow>
   education list \<Rightarrow> education list response" where
  "Education_list cmp ru q es =
     (let limit = intParam (q_limit q) 20;
          query = Education_list_query ru q;
          sort = Education_list_sort q
      in ok (limit_docs limit (sort_docs (cmp sort) (filter (Education_matches query) es))))"

text \<open>
  The education records a list request asks for, their visibility aside: those of the
  requested type, when the request has one.
\<close>

definition education_wanted :: "query \<Rightarrow> education \<Rightarrow> bool" where
  "education_wanted q d = (if truthy (q_type q) then Some (e_type d) = q_type q else True)"

text \<open>
  The query of the two get-by-id routes: the id, and the visibility check for a caller
  who is not an admin.
\<close>

definition by_id_query :: "user option \<Rightarrow> objectId \<Rightarrow> 'a showcase_scheme \<Rightarrow> bool" where
  "by_id_query ru i d = (oid d = i \<and> (if \<not> isAdmin ru then isVisible d = True else True))"

text \<open>GET /api/education/:id, after \<open>optionalAuth\<close>.\<close>

definition Education_get :: "user option \<Rightarrow> string \<Rightarrow> education list \<Rightarrow> education response" where
  "Education_get ru pid es =
     (case castObjectId pid of
        None \<Rightarrow> fail 500 ''Error fetching education record''
      | Some i \<Rightarrow>
          (case find (by_id_query ru i) es of
             None \<Rightarrow> fail 404 ''Education record not found''
           | Some d \<Rightarrow> ok d))"

text \<open>PUT /api/education/:id/visibility, after \<open>protect\<close> and \<open>adminOnly\<close>.\<close>

definition Education_visibility ::
  "string \<Rightarrow> education list \<Rightarrow> education response \<times> education list" where
  "Education_visibility pid es =
     (case findById es pid of
        Inl e \<Rightarrow> (fail 500 ''Error updating visibility'', es)
      | Inr None \<Rightarrow> (fail 404 ''Education record not found'', es)
      | Inr (Some d) \<Rightarrow>
          (let d' = d\<lparr>isVisible := \<not> isVisible d\<rparr> in
           (ok_message (''Education record '' @ (if isVisible d' then ''shown'' else ''hidden'')
                        @ '' successfully'') (Some d'),
            save d' es)))"

text \<open>GET /api/education/admin/all, after \<open>protect\<close> and \<open>adminOnly\<close>.\<close>

definition Education_admin_query :: "(string \<Rightarrow> bool) \<Rightarrow> query \<Rightarrow> education_query" where
  "Education_admin_query m q =
     \<lparr>eq_isVisible = (case q_isVisible q of None \<Rightarrow> None | Some v \<Rightarrow> Some (v = ''true'')),
      eq_type = (if truthy (q_type q) then q_type q else None),
      eq_or = (if truthy (q_search q) then Some m else None)\<rparr>"

definition Education_admin_all ::
  "regex \<Rightarrow> (sort_spec \<Rightarrow> education \<Rightarrow> education \<Rightarrow> bool) \<Rightarrow> query \<Rightarrow> education list \<Rightarrow>
   education paged response" where
  "Education_admin_all rx cmp q es =
     (let page = intParam (q_page q) 1;
          limit = intParam (q_limit q) 20;
          sortBy = orDefault (q_sortBy q) ''createdAt'';
          sortOrd = orDefault (q_sortOrder q) ''desc'';
          sort = [(sortBy, direction sortOrd)]
      in case search_matcher rx q of
           None \<Rightarrow> fail 500 ''Error fetching education records''
         | Some m \<Rightarrow>
             (let query = Education_admin_query m q
              in case paginate (cmp sort) page limit (filter (Education_matches query) es) of
                   Inl e \<Rightarrow> fail 500 ''Error fetching education records''
                 | Inr pg \<Rightarrow> ok pg))"

section \<open>Project routes (routes/projects.js)\<close>

record project_query =
  pq_isVisible :: "bool option"
  pq_category :: "string option"
  pq_isFeatured :: "bool option"
  pq_status :: "string option"
  pq_or :: "(string \<Rightarrow> bool) option"

definition Project_matches :: "project_query \<Rightarrow> project \<Rightarrow> bool" where
  "Project_matches f d =
     ((case pq_isVisible f of None \<Rightarrow> True | Some b \<Rightarrow> isVisible d = b) \<and>
      (case pq_category f of None \<Rightarrow> True | Some c \<Rightarrow> category d = c) \<and>
      (case pq_isFeatured f of None \<Rightarrow> True | Some b \<Rightarrow> isFeatured d = b) \<and>
      (case pq_status f of None \<Rightarrow> True | Some t \<Rightarrow> p_status d = t) \<and>
      (case pq_or f of None \<Rightarrow> True
       | Some m \<Rightarrow> m (title d) \<or> m (description d) \<or> list_ex m (technologies d)
                   \<or> list_ex m (tags d)))"

text \<open>GET /api/projects, after \<open>optionalAuth\<close>. The query is built first; \<open>m\<close> is
  the compiled search pattern.\<close>

definition Project_list_query :: "(string \<Rightarrow> bool) \<Rightarrow> user option \<Rightarrow> query \<Rightarrow> project_query" where
  "Project_list_query m ru q =
     \<lparr>pq_isVisible = (if isAdmin ru then None else Some True),
      pq_category = (if truthy (q_category q) then q_category q else None),
      pq_isFeatured = (case q_featured q of None \<Rightarrow> None | Some v \<Rightarrow> Some (v = ''true'')),
      pq_status = (if truthy (q_status q) then q_status q else None),
      pq_or = (if truthy (q_search q) then Some m else None)\<rparr>"

text \<open>The sort object: the requested field first, then featured projects first, then
  \<^verbatim>\<open>sortOrder\<close> ascending.\<close>

definition Project_list_sort :: "query \<Rightarrow> sort_spec" where
  "Project_list_sort q =
     (let sortBy = orDefault (q_sortBy q) ''createdAt'';
          sortOrd = orDefault (q_sortOrder q) ''desc''
      in (sortBy, direction sortOrd) #
         (if sortBy \<noteq> ''isFeatured'' then [(''isFeatured'', - 1)] else []) @
         (if sortBy \<noteq> ''sortOrder'' then [(''sortOrder'', 1)] else []))"

text \<open>
  The projects a list request asks for, their visibility aside: those of the requested
  category, featured flag and status, matching the search pattern \<open>m\<close> in the title,
  the description, a technology or a tag, for each of these the request has.
\<close>

definition project_wanted :: "(string \<Rightarrow> bool) \<Rightarrow> query \<Rightarrow> project \<Rightarrow> bool" where
  "project_wanted m q d =
     ((if truthy (q_category q) then Some (category d) = q_category q else True) \<and>
      (case q_featured q of None \<Rightarrow> True | Some v \<Rightarrow> isFeatured d = (v = ''true'')) \<and>
      (if truthy (q_status q) then Some (p_status d) = q_status q else True) \<and>
      (if truthy (q_search q)
       then m (title d) \<or> m (description d) \<or> list_ex m (technologies d) \<or> list_ex m (tags d)
       else True))"

definition Project_list ::
  "regex \<Rightarrow> (sort_spec \<Rightarrow> project \<Rightarrow> project \<Rightarrow> bool) \<Rightarrow> user option \<Rightarrow> query \<Rightarrow>
   project list \<Rightarrow> project paged response" where
  "Project_list rx cmp ru q ps =
     (let limit = intParam (q_limit q) 20;
          page = intParam (q_page q) 1;
          sort = Project_list_sort q
      in case search_matcher rx q of
           None \<Rightarrow> fail 500 ''Error fetching projects''
         | Some m \<Rightarrow>
             (let query = Project_list_query m ru q
              in case paginate (cmp sort) page limit (filter (Project_matches query) ps) of
                   Inl e \<Rightarrow> fail 500 ''Error fetching projects''
                 | Inr pg \<Rightarrow> ok pg))"

text \<open>GET /api/projects/featured, after \<open>optionalAuth\<close>.\<close>

definition Project_featured_query :: "user option \<Rightarrow> project_query" where
  "Project_featured_query ru =
     \<lparr>pq_isVisible = (if \<not> isAdmin ru then Some True else None),
      pq_category = None, pq_isFeatured = Some True, pq_status = None, pq_or = None\<rparr>"

definition Project_featured ::
  "(sort_spec \<Rightarrow> project \<Rightarrow> project \<Rightarrow> bool) \<Rightarrow> user option \<Rightarrow> query \<Rightarrow>
   project list \<Rightarrow> project list response" where
  "Project_featured cmp ru q ps =
     (let limit = intParam (q_limit q) 6;
          query = Project_featured_query ru
      in ok (limit_docs limit
               (sort_docs (cmp [(''sortOrder'', 1), (''createdAt'', - 1)])
                  (filter (Project_matches query) ps))))"

text \<open>
  GET /api/projects/:id, after \<open>optionalAuth\<close>. The view count of the project found
  is incremented without waiting; the response carries the project as read.
\<close>

definition Project_get ::
  "user option \<Rightarrow> string \<Rightarrow> project list \<Rightarrow> project response \<times> project list" where
  "Project_get ru pid ps =
     (case castObjectId pid of
        None \<Rightarrow> (fail 500 ''Error fetching project'', ps)
      | Some i \<Rightarrow>
          (case find (by_id_query ru i) ps of
             None \<Rightarrow> (fail 404 ''Project not found'', ps)
           | Some d \<Rightarrow>
               (ok d, map (\<lambda>x. if oid x = i then x\<lparr>views := views x + 1\<rparr> else x) ps)))"

text \<open>PUT /api/projects/:id/visibility, after \<open>protect\<close> and \<open>adminOnly\<close>.\<close>

definition Project_visibility ::
  "string \<Rightarrow> project list \<Rightarrow> project response \<times> project list" where
  "Project_visibility pid ps =
     (case findById ps pid of
        Inl e \<Rightarrow> (fail 500 ''Error updating visibility'', ps)
      | Inr None \<Rightarrow> (fail 404 ''Project not found'', ps)
      | Inr (Some d) \<Rightarrow>
          (let d' = d\<lparr>isVisible := \<not> isVisible d\<rparr> in
           (ok_message (''Project '' @ (if isVisible d' then ''shown'' else ''hidden'')
                        @ '' successfully'') (Some d'),
            save d' ps)))"

text \<open>
  POST /api/projects/:id/like, after \<open>protect\<close>; \<open>u\<close> is \<^verbatim>\<open>req.user\<close> and
  \<open>now\<close> the value of \<^verbatim>\<open>new Date()\<close>. Every like entry carries the id of the
  principal who made it.
\<close>

record like_data =
  liked :: bool
  likeCount :: nat

definition Project_like ::
  "user \<Rightarrow> string \<Rightarrow> nat \<Rightarrow> project list \<Rightarrow> like_data response \<times> project list" where
  "Project_like u pid now ps =
     (case findById ps pid of
        Inl e \<Rightarrow> (fail 500 ''Error updating project like'', ps)
      | Inr None \<Rightarrow> (fail 404 ''Project not found'', ps)
      | Inr (Some d) \<Rightarrow>
          (let existingLikeIndex = findIndex (\<lambda>l. userId l = oid u) (likes d);
               d' = (if existingLikeIndex > - 1
                     then d\<lparr>likes := splice1 existingLikeIndex (likes d)\<rparr>
                     else d\<lparr>likes := likes d @ [\<lparr>userId = oid u, timestamp = now\<rparr>]\<rparr>)
           in (ok_message (if existingLikeIndex > - 1 then ''Project unliked''
                           else ''Project liked'')
                 (Some \<lparr>liked = (existingLikeIndex = - 1), likeCount = length (likes d')\<rparr>),
               save d' ps)))"

text \<open>The like route called once for each element of a list of times, in sequence.\<close>

fun Project_like_times :: "user \<Rightarrow> string \<Rightarrow> nat list \<Rightarrow> project list \<Rightarrow> project list" where
  "Project_like_times u pid [] ps = ps"
| "Project_like_times u pid (now # nows) ps =
     Project_like_times u pid nows (snd (Project_like u pid now ps))"

text \<open>The number of like entries of a principal on a project.\<close>

definition likes_of :: "objectId \<Rightarrow> project \<Rightarrow> nat" where
  "likes_of p d = length (filter (\<lambda>l. userId l = p) (likes d))"

section \<open>Contact routes (routes/contact.js)\<close>

text \<open>
  The request body of POST /api/contact; a field the body lacks is \<open>None\<close>, and a
  validator sees the empty string for it.
\<close>

record contact_body =
  b_name :: "string option"
  b_email :: "string option"
  b_subject :: "string option"
  b_message :: "string option"
  b_phone :: "string option"

definition isLength :: "nat \<Rightarrow> nat \<Rightarrow> string \<Rightarrow> bool" where
  "isLength lo hi s = (lo \<le> length s \<and> length s \<le> hi)"

text \<open>
  The validator chains of the route, in their order; each chain has one validator and
  so gives at most one error. \<open>isEmail\<close> is the library's e-mail check, a parameter.
\<close>

definition contact_validators :: "(string \<Rightarrow> bool) \<Rightarrow> contact_body \<Rightarrow> verror list" where
  "contact_validators isEmail b =
     (if isLength 2 100 (trim (orDefault (b_name b) [])) then []
      else [\<lparr>path = ''name'', msg = ''Name must be between 2 and 100 characters''\<rparr>]) @
     (if isEmail (orDefault (b_email b) []) then []
      else [\<lparr>path = ''email'', msg = ''Please provide a valid email''\<rparr>]) @
     (if isLength 5 200 (trim (orDefault (b_subject b) [])) then []
      else [\<lparr>path = ''subject'', msg = ''Subject must be between 5 and 200 characters''\<rparr>]) @
     (if isLength 10 1000 (trim (orDefault (b_message b) [])) then []
      else [\<lparr>path = ''message'', msg = ''Message must be between 10 and 1000 characters''\<rparr>]) @
     (case b_phone b of
        None \<Rightarrow> []
      | Some ph \<Rightarrow>
          if isLength 0 20 (trim ph) then []
          else [\<lparr>path = ''phone'', msg = ''Phone number cannot exceed 20 characters''\<rparr>])"

text \<open>
  The e-mail pattern of the Contact schema (models/Contact.js),
  \<^verbatim>\<open>/^[^\s@]+@[^\s@]+\.[^\s@]+$/\<close>: no white space, one \<^verbatim>\<open>@\<close>, a non-empty local
  part, and a dot inside the domain with a character on each side.
\<close>

definition schema_email :: "string \<Rightarrow> bool" where
  "schema_email s =
     (\<not> list_ex isSpace s \<and>
      (case split CHR ''@'' s of
         [l, d] \<Rightarrow> l \<noteq> [] \<and> CHR ''.'' \<in> set (butlast (tl d))
       | _ \<Rightarrow> False))"

text \<open>
  A library stand-in for \<open>isEmail\<close> at concrete inputs: the shape every address the
  library accepts has, a non-empty local part and a domain with a dot.
\<close>

definition isEmail_shape :: "string \<Rightarrow> bool" where
  "isEmail_shape s = schema_email s"

text \<open>
  POST /api/contact. \<open>normalizeEmail\<close> is the library sanitizer, \<open>newId\<close> the id the
  store gives the new document and \<open>ip\<close> the client address. A document the schema
  refuses is not saved and the route answers 500. The response to a saved message
  carries the new contact (under the key \<^verbatim>\<open>contact\<close>).
\<close>

definition lower_ascii :: "char \<Rightarrow> char" where
  "lower_ascii c =
     (let n = of_char c :: nat in if 65 \<le> n \<and> n \<le> 90 then char_of (n + 32) else c)"

definition Contact_create ::
  "(string \<Rightarrow> bool) \<Rightarrow> (string \<Rightarrow> string) \<Rightarrow> objectId \<Rightarrow> string option \<Rightarrow> contact_body \<Rightarrow>
   contact list \<Rightarrow> contact response \<times> contact list" where
  "Contact_create isEmail normalizeEmail newId ip b cs =
     (let es = contact_validators isEmail b in
      if es \<noteq> [] then (validation_failed es, cs)
      else
        (let c = \<lparr>oid = newId,
                  c_name = trim (orDefault (b_name b) []),
                  c_email = map lower_ascii (trim (normalizeEmail (orDefault (b_email b) []))),
                  c_subject = trim (orDefault (b_subject b) []),
                  c_message = trim (orDefault (b_message b) []),
                  c_phone = map_option trim (b_phone b),
                  c_status = ''new'', c_priority = ''medium'', c_ipAddress = ip\<rparr>
         in if schema_email (c_email c)
            then (\<lparr>status = 201, success = True,
                   message = Some ''Your message has been sent successfully! I will get back to you soon.'',
                   errors = [], data = Some c\<rparr>, cs @ [c])
            else (fail 500 ''Failed to send message. Please try again later.'', cs)))"

record contact_query =
  cq_status :: "string option"
  cq_priority :: "string option"
  cq_or :: "(string \<Rightarrow> bool) option"

definition Contact_matches :: "contact_query \<Rightarrow> contact \<Rightarrow> bool" where
  "Contact_matches f d =
     ((case cq_status f of None \<Rightarrow> True | Some t \<Rightarrow> c_status d = t) \<and>
      (case cq_priority f of None \<Rightarrow> True | Some t \<Rightarrow> c_priority d = t) \<and>
      (case cq_or f of None \<Rightarrow> True
       | Some m \<Rightarrow> m (c_name d) \<or> m (c_email d) \<or> m (c_subject d) \<or> m (c_message d)))"

text \<open>GET /api/contact, after \<open>protect\<close> and \<open>adminOnly\<close>. The status counts of the
  dashboard, which the response also carries, are left out.\<close>

definition Contact_list_query :: "(string \<Rightarrow> bool) \<Rightarrow> query \<Rightarrow> contact_query" where
  "Contact_list_query m q =
     \<lparr>cq_status = (if truthy (q_status q) then q_status q else None),
      cq_priority = (if truthy (q_priority q) then q_priority q else None),
      cq_or = (if truthy (q_search q) then Some m else None)\<rparr>"

definition Contact_list ::
  "regex \<Rightarrow> (sort_spec \<Rightarrow> contact \<Rightarrow> contact \<Rightarrow> bool) \<Rightarrow> query \<Rightarrow> contact list \<Rightarrow>
   contact paged response" where
  "Contact_list rx cmp q cs =
     (let page = intParam (q_page q) 1;
          limit = intParam (q_limit q) 10;
          sortBy = orDefault (q_sortBy q) ''createdAt'';
          sortOrd = orDefault (q_sortOrder q) ''desc'';
          sort = [(sortBy, direction sortOrd)]
      in case search_matcher rx q of
           None \<Rightarrow> fail 500 ''Error fetching contacts''
         | Some m \<Rightarrow>
             (let query = Contact_list_query m q
              in case paginate (cmp sort) page limit (filter (Contact_matches query) cs) of
                   Inl e \<Rightarrow> fail 500 ''Error fetching contacts''
                 | Inr pg \<Rightarrow> ok pg))"

section \<open>User routes (routes/user.js)\<close>

record user_query =
  uq_role :: "string option"
  uq_isActive :: "bool option"
  uq_or :: "(string \<Rightarrow> bool) option"

definition User_matches :: "user_query \<Rightarrow> user \<Rightarrow> bool" where
  "User_matches f d =
     ((case uq_role f of None \<Rightarrow> True | Some r \<Rightarrow> role d = r) \<and>
      (case uq_isActive f of None \<Rightarrow> True | Some b \<Rightarrow> isActive d = b) \<and>
      (case uq_or f of None \<Rightarrow> True | Some m \<Rightarrow> m (name d) \<or> m (email d)))"

text \<open>GET /api/user/all, after \<open>protect\<close> and \<open>adminOnly\<close>. The role counts of the
  dashboard, which the response also carries, are left out.\<close>

definition User_all_query :: "(string \<Rightarrow> bool) \<Rightarrow> query \<Rightarrow> user_query" where
  "User_all_query m q =
     \<lparr>uq_role = (if truthy (q_role q) then q_role q else None),
      uq_isActive = (case q_isActive q of None \<Rightarrow> None | Some v \<Rightarrow> Some (v = ''true'')),
      uq_or = (if truthy (q_search q) then Some m else None)\<rparr>"

definition User_all ::
  "regex \<Rightarrow> (sort_spec \<Rightarrow> user \<Rightarrow> user \<Rightarrow> bool) \<Rightarrow> query \<Rightarrow> user list \<Rightarrow>
   user paged response" where
  "User_all rx cmp q us =
     (let page = intParam (q_page q) 1;
          limit = intParam (q_limit q) 20;
          sortBy = orDefault (q_sortBy q) ''createdAt'';
          sortOrd = orDefault (q_sortOrder q) ''desc'';
          sort = [(sortBy, direction sortOrd)]
      in case search_matcher rx q of
           None \<Rightarrow> fail 500 ''Error fetching users''
         | Some m \<Rightarrow>
             (let query = User_all_query m q
              in case paginate (cmp sort) page limit (filter (User_matches query) us) of
                   Inl e \<Rightarrow> fail 500 ''Error fetching users''
                 | Inr pg \<Rightarrow> ok (pg\<lparr>docs := map select_minus_password (docs pg)\<rparr>)))"

text \<open>GET /api/user/:id, after \<open>protect\<close> and \<open>adminOnly\<close>.\<close>

definition User_get :: "string \<Rightarrow> user list \<Rightarrow> user response" where
  "User_get pid us =
     (case findById us pid of
        Inl e \<Rightarrow> fail 500 ''Error fetching user''
      | Inr None \<Rightarrow> fail 404 ''User not found''
      | Inr (Some d) \<Rightarrow> ok (select_minus_password d))"

text \<open>
  PUT /api/user/:id/role, after \<open>protect\<close> and \<open>adminOnly\<close>; \<open>u\<close> is
  \<^verbatim>\<open>req.user\<close>, \<open>pid\<close> is \<^verbatim>\<open>req.params.id\<close> and \<open>r\<close> is \<^verbatim>\<open>req.body.role\<close>.
  The guard compares the path parameter with the principal's id as strings.
\<close>

definition User_role ::
  "user \<Rightarrow> string \<Rightarrow> string option \<Rightarrow> user list \<Rightarrow> user response \<times> user list" where
  "User_role u pid r us =
     (if r \<noteq> Some ''user'' \<and> r \<noteq> Some ''admin''
      then (validation_failed [\<lparr>path = ''role'', msg = ''Role must be either user or admin''\<rparr>], us)
      else if pid = oid u \<and> r = Some ''user''
      then (fail 400 ''You cannot demote yourself from admin role'', us)
      else (case findByIdAndUpdate us pid (\<lambda>x. x\<lparr>role := orDefault r []\<rparr>) of
              Inl e \<Rightarrow> (fail 500 ''Error updating user role'', us)
            | Inr (None, us') \<Rightarrow> (fail 404 ''User not found'', us')
            | Inr (Some d, us') \<Rightarrow>
                (ok_message (''User role updated to '' @ orDefault r [] @ '' successfully'')
                   (Some (select_minus_password d)), us')))"

text \<open>
  The body field \<^verbatim>\<open>isActive\<close> of PUT /api/user/:id/status is a JSON value. The
  validator \<^verbatim>\<open>isBoolean()\<close> reads it as a string and accepts \<^verbatim>\<open>true\<close>,
  \<^verbatim>\<open>false\<close>, \<^verbatim>\<open>1\<close> and \<^verbatim>\<open>0\<close>; the guard tests its truthiness; the store
  casts it to a boolean.
\<close>

datatype jsvalue = JUndefined | JBool bool | JStr string | JNum int

definition isBoolean :: "jsvalue \<Rightarrow> bool" where
  "isBoolean v =
     (case v of
        JUndefined \<Rightarrow> False
      | JBool b \<Rightarrow> True
      | JStr s \<Rightarrow> s = ''true'' \<or> s = ''false'' \<or> s = ''1'' \<or> s = ''0''
      | JNum n \<Rightarrow> n = 0 \<or> n = 1)"

definition js_truthy :: "jsvalue \<Rightarrow> bool" where
  "js_truthy v =
     (case v of JUndefined \<Rightarrow> False | JBool b \<Rightarrow> b | JStr s \<Rightarrow> s \<noteq> [] | JNum n \<Rightarrow> n \<noteq> 0)"

definition castBoolean :: "jsvalue \<Rightarrow> bool option" where
  "castBoolean v =
     (case v of
        JUndefined \<Rightarrow> None
      | JBool b \<Rightarrow> Some b
      | JStr s \<Rightarrow>
          if s = ''true'' \<or> s = ''1'' \<or> s = ''yes'' then Some True
          else if s = ''false'' \<or> s = ''0'' \<or> s = ''no'' then Some False else None
      | JNum n \<Rightarrow> if n = 1 then Some True else if n = 0 then Some False else None)"

text \<open>PUT /api/user/:id/status, after \<open>protect\<close> and \<open>adminOnly\<close>.\<close>

definition User_status ::
  "user \<Rightarrow> string \<Rightarrow> jsvalue \<Rightarrow> user list \<Rightarrow> user response \<times> user list" where
  "User_status u pid v us =
     (if \<not> isBoolean v
      then (validation_failed [\<lparr>path = ''isActive'', msg = ''isActive must be a boolean value''\<rparr>],
            us)
      else if pid = oid u \<and> \<not> js_truthy v
      then (fail 400 ''You cannot deactivate your own account'', us)
      else (case castBoolean v of
              None \<Rightarrow> (fail 500 ''Error updating user status'', us)
            | Some b \<Rightarrow>
                (case findByIdAndUpdate us pid (\<lambda>x. x\<lparr>isActive := b\<rparr>) of
                   Inl e \<Rightarrow> (fail 500 ''Error updating user status'', us)
                 | Inr (None, us') \<Rightarrow> (fail 404 ''User not found'', us')
                 | Inr (Some d, us') \<Rightarrow>
                     (ok_message (''User '' @ (if js_truthy v then ''activated''
                                              else ''deactivated'') @ '' successfully'')
                        (Some (select_minus_password d)), us'))))"

text \<open>DELETE /api/user/:id, after \<open>protect\<close> and \<open>adminOnly\<close>.\<close>

definition User_delete :: "user \<Rightarrow> string \<Rightarrow> user list \<Rightarrow> user response \<times> user list" where
  "User_delete u pid us =
     (if pid = oid u then (fail 400 ''You cannot delete your own account'', us)
      else (case findByIdAndDelete us pid of
              Inl e \<Rightarrow> (fail 500 ''Error deleting user'', us)
            | Inr (None, us') \<Rightarrow> (fail 404 ''User not found'', us')
            | Inr (Some d, us') \<Rightarrow> (ok_message ''User deleted successfully'' None, us')))"

section \<open>Routes: middleware chains over the store\<close>

text \<open>
  A route is its middleware chain followed by its handler. A middleware that answers
  ends the request: the handler does not run and the store is as it was.
\<close>

type_synonym verifier = "string \<Rightarrow> jwt_error + decoded"

definition with_protect ::
  "verifier \<Rightarrow> request \<Rightarrow> store \<Rightarrow> (user \<Rightarrow> 'a response \<times> store) \<Rightarrow> 'a response \<times> store" where
  "with_protect vt req st h =
     (case protect vt (users st) req of Inl r \<Rightarrow> (r, st) | Inr u \<Rightarrow> h u)"

definition with_admin ::
  "verifier \<Rightarrow> request \<Rightarrow> store \<Rightarrow> (user \<Rightarrow> 'a response \<times> store) \<Rightarrow> 'a response \<times> store" where
  "with_admin vt req st h =
     with_protect vt req st
       (\<lambda>u. case adminOnly (Some u) of Some r \<Rightarrow> (r, st) | None \<Rightarrow> h u)"

definition with_optionalAuth ::
  "verifier \<Rightarrow> request \<Rightarrow> store \<Rightarrow> (user option \<Rightarrow> 'a response \<times> store) \<Rightarrow>
   'a response \<times> store" where
  "with_optionalAuth vt req st h =
     (case optionalAuth vt (users st) req of Inl r \<Rightarrow> (r, st) | Inr ru \<Rightarrow> h ru)"

definition route_education_list ::
  "verifier \<Rightarrow> (sort_spec \<Rightarrow> education \<Rightarrow> education \<Rightarrow> bool) \<Rightarrow> request \<Rightarrow> query \<Rightarrow> store \<Rightarrow>
   education list response \<times> store" where
  "route_education_list vt cmp req q st =
     with_optionalAuth vt req st (\<lambda>ru. (Education_list cmp ru q (educations st), st))"

definition route_education_get ::
  "verifier \<Rightarrow> request \<Rightarrow> string \<Rightarrow> store \<Rightarrow> education response \<times> store" where
  "route_education_get vt req pid st =
     with_optionalAuth vt req st (\<lambda>ru. (Education_get ru pid (educations st), st))"

definition route_education_visibility ::
  "verifier \<Rightarrow> request \<Rightarrow> string \<Rightarrow> store \<Rightarrow> education response \<times> store" where
  "route_education_visibility vt req pid st =
     with_admin vt req st
       (\<lambda>u. case Education_visibility pid (educations st) of
               (r, es) \<Rightarrow> (r, st\<lparr>educations := es\<rparr>))"

definition route_education_admin_all ::
  "verifier \<Rightarrow> regex \<Rightarrow> (sort_spec \<Rightarrow> education \<Rightarrow> education \<Rightarrow> bool) \<Rightarrow> request \<Rightarrow> query \<Rightarrow>
   store \<Rightarrow> education paged response \<times> store" where
  "route_education_admin_all vt rx cmp req q st =
     with_admin vt req st (\<lambda>u. (Education_admin_all rx cmp q (educations st), st))"

definition route_project_list ::
  "verifier \<Rightarrow> regex \<Rightarrow> (sort_spec \<Rightarrow> project \<Rightarrow> project \<Rightarrow> bool) \<Rightarrow> request \<Rightarrow> query \<Rightarrow>
   store \<Rightarrow> project paged response \<times> store" where
  "route_project_list vt rx cmp req q st =
     with_optionalAuth vt req st (\<lambda>ru. (Project_list rx cmp ru q (projects st), st))"

definition route_project_featured ::
  "verifier \<Rightarrow> (sort_spec \<Rightarrow> project \<Rightarrow> project \<Rightarrow> bool) \<Rightarrow> request \<Rightarrow> query \<Rightarrow> store \<Rightarrow>
   project list response \<times> store" where
  "route_project_featured vt cmp req q st =
     with_optionalAuth vt req st (\<lambda>ru. (Project_featured cmp ru q (projects st), st))"

definition route_project_get ::
  "verifier \<Rightarrow> request \<Rightarrow> string \<Rightarrow> store \<Rightarrow> project response \<times> store" where
  "route_project_get vt req pid st =
     with_optionalAuth vt req st
       (\<lambda>ru. case Project_get ru pid (projects st) of (r, ps) \<Rightarrow> (r, st\<lparr>projects := ps\<rparr>))"

definition route_project_visibility ::
  "verifier \<Rightarrow> request \<Rightarrow> string \<Rightarrow> store \<Rightarrow> project response \<times> store" where
  "route_project_visibility vt req pid st =
     with_admin vt req st
       (\<lambda>u. case Project_visibility pid (projects st) of
               (r, ps) \<Rightarrow> (r, st\<lparr>projects := ps\<rparr>))"

definition route_project_like ::
  "verifier \<Rightarrow> request \<Rightarrow> string \<Rightarrow> nat \<Rightarrow> store \<Rightarrow> like_data response \<times> store" where
  "route_project_like vt req pid now st =
     with_protect vt req st
       (\<lambda>u. case Project_like u pid now (projects st) of
               (r, ps) \<Rightarrow> (r, st\<lparr>projects := ps\<rparr>))"

definition route_contact_list ::
  "verifier \<Rightarrow> regex \<Rightarrow> (sort_spec \<Rightarrow> contact \<Rightarrow> contact \<Rightarrow> bool) \<Rightarrow> request \<Rightarrow> query \<Rightarrow>
   store \<Rightarrow> contact paged response \<times> store" where
  "route_contact_list vt rx cmp req q st =
     with_admin vt req st (\<lambda>u. (Contact_list rx cmp q (contacts st), st))"

definition route_user_all ::
  "verifier \<Rightarrow> regex \<Rightarrow> (sort_spec \<Rightarrow> user \<Rightarrow> user \<Rightarrow> bool) \<Rightarrow> request \<Rightarrow> query \<Rightarrow>
   store \<Rightarrow> user paged response \<times> store" where
  "route_user_all vt rx cmp req q st =
     with_admin vt req st (\<lambda>u. (User_all rx cmp q (users st), st))"

definition route_user_get ::
  "verifier \<Rightarrow> request \<Rightarrow> string \<Rightarrow> store \<Rightarrow> user response \<times> store" where
  "route_user_get vt req pid st = with_admin vt req st (\<lambda>u. (User_get pid (users st), st))"

definition route_user_role ::
  "verifier \<Rightarrow> request \<Rightarrow> string \<Rightarrow> string option \<Rightarrow> store \<Rightarrow> user response \<times> store" where
  "route_user_role vt req pid r st =
     with_admin vt req st
       (\<lambda>u. case User_role u pid r (users st) of (res, us) \<Rightarrow> (res, st\<lparr>users := us\<rparr>))"

definition route_user_status ::
  "verifier \<Rightarrow> request \<Rightarrow> string \<Rightarrow> jsvalue \<Rightarrow> store \<Rightarrow> user response \<times> store" where
  "route_user_status vt req pid v st =
     with_admin vt req st
       (\<lambda>u. case User_status u pid v (users st) of (res, us) \<Rightarrow> (res, st\<lparr>users := us\<rparr>))"

definition route_user_delete ::
  "verifier \<Rightarrow> request \<Rightarrow> string \<Rightarrow> store \<Rightarrow> user response \<times> store" where
  "route_user_delete vt req pid st =
     with_admin vt req st
       (\<lambda>u. case User_delete u pid (users st) of (res, us) \<Rightarrow> (res, st\<lparr>users := us\<rparr>))"

text \<open>
  A request lacks a valid token when it carries no token, or a token that fails
  verification, or a token whose principal is not found or is not active.
\<close>

definition lacks_valid_token :: "verifier \<Rightarrow> user list \<Rightarrow> request \<Rightarrow> bool" where
  "lacks_valid_token vt us req =
     (case token_of req of
        None \<Rightarrow> True
      | Some t \<Rightarrow>
          t = [] \<or>
          (case vt t of
             Inl e \<Rightarrow> True
           | Inr d \<Rightarrow>
               (case castObjectId (decoded_id d) of
                  None \<Rightarrow> True
                | Some i \<Rightarrow>
                    (case find (\<lambda>u. oid u = i) us of
                       None \<Rightarrow> True
                     | Some u \<Rightarrow> \<not> isActive u))))"

text \<open>
  A request is by an authenticated admin when it carries a token that passes
  verification and whose principal is found, is active and has the role
  \<^verbatim>\<open>admin\<close>.
\<close>

definition authenticated_admin :: "verifier \<Rightarrow> user list \<Rightarrow> request \<Rightarrow> bool" where
  "authenticated_admin vt us req =
     (case token_of req of
        None \<Rightarrow> False
      | Some t \<Rightarrow>
          t \<noteq> [] \<and>
          (case vt t of
             Inl e \<Rightarrow> False
           | Inr d \<Rightarrow>
               (case castObjectId (decoded_id d) of
                  None \<Rightarrow> False
                | Some i \<Rightarrow>
                    (case find (\<lambda>u. oid u = i) us of
                       None \<Rightarrow> False
                     | Some u \<Rightarrow> isActive u \<and> role u = ''admin''))))"

section \<open>A small store and a token verifier, for evaluating the routes\<close>

definition admin1 :: user where
  "admin1 = \<lparr>oid = ''64b7f0c2a1b2c3d4e5f60718'', name = ''Admin User'',
             email = ''admin@example.com'', password = Some ''hash-a'', role = ''admin'',
             isActive = True\<rparr>"

definition alice :: user where
  "alice = \<lparr>oid = ''64b7f0c2a1b2c3d4e5f60719'', name = ''Alice'',
            email = ''alice@example.com'', password = Some ''hash-b'', role = ''user'',
            isActive = True\<rparr>"

definition bob :: user where
  "bob = \<lparr>oid = ''64b7f0c2a1b2c3d4e5f6071a'', name = ''Bob'',
          email = ''bob@example.com'', password = Some ''hash-c'', role = ''user'',
          isActive = False\<rparr>"

definition edu1 :: education where
  "edu1 = \<lparr>oid = ''64b7f0c2a1b2c3d4e5f60721'', isVisible = True, sortOrder = 0,
           createdBy = ''64b7f0c2a1b2c3d4e5f60718'', institution = ''Centennial College'',
           degree = ''Diploma'', fieldOfStudy = ''Software Engineering'', e_type = ''formal''\<rparr>"

definition edu2 :: education where
  "edu2 = \<lparr>oid = ''64b7f0c2a1b2c3d4e5f60722'', isVisible = False, sortOrder = 1,
           createdBy = ''64b7f0c2a1b2c3d4e5f60718'', institution = ''Online Academy'',
           degree = ''Certificate'', fieldOfStudy = ''Databases'', e_type = ''course''\<rparr>"

definition proj1 :: project where
  "proj1 = \<lparr>oid = ''64b7f0c2a1b2c3d4e5f60731'', isVisible = True, sortOrder = 0,
            createdBy = ''64b7f0c2a1b2c3d4e5f60718'', title = ''Portfolio'',
            description = ''Personal portfolio site'', category = ''web-development'',
            technologies = [''React''], tags = [''web''], p_status = ''completed'',
            isFeatured = True, views = 3,
            likes = [\<lparr>userId = ''64b7f0c2a1b2c3d4e5f6071a'', timestamp = 5\<rparr>]\<rparr>"

definition proj2 :: project where
  "proj2 = \<lparr>oid = ''64b7f0c2a1b2c3d4e5f60732'', isVisible = False, sortOrder = 1,
            createdBy = ''64b7f0c2a1b2c3d4e5f60718'', title = ''Draft'',
            description = ''Unpublished project'', category = ''other'',
            technologies = [''Node''], tags = [], p_status = ''planning'',
            isFeatured = True, views = 0, likes = []\<rparr>"

definition contact1 :: contact where
  "contact1 = \<lparr>oid = ''64b7f0c2a1b2c3d4e5f60741'', c_name = ''Carol'',
               c_email = ''carol@example.com'', c_subject = ''Hello there'',
               c_message = ''I would like to get in touch.'', c_phone = None,
               c_status = ''new'', c_priority = ''medium'', c_ipAddress = None\<rparr>"

definition store1 :: store where
  "store1 = \<lparr>users = [admin1, alice, bob], educations = [edu1, edu2],
             projects = [proj1, proj2], contacts = [contact1]\<rparr>"

definition verify1 :: verifier where
  "verify1 t =
     (if t = ''admin.jwt'' then Inr \<lparr>decoded_id = ''64b7f0c2a1b2c3d4e5f60718''\<rparr>
      else if t = ''alice.jwt'' then Inr \<lparr>decoded_id = ''64b7f0c2a1b2c3d4e5f60719''\<rparr>
      else if t = ''bob.jwt'' then Inr \<lparr>decoded_id = ''64b7f0c2a1b2c3d4e5f6071a''\<rparr>
      else if t = ''expired.jwt'' then Inl TokenExpiredError
      else Inl JsonWebTokenError)"

definition by_sortOrder :: "sort_spec \<Rightarrow> 'a showcase_scheme \<Rightarrow> 'a showcase_scheme \<Rightarrow> bool" where
  "by_sortOrder sp a b = (sortOrder a \<le> sortOrder b)"

definition unordered :: "sort_spec \<Rightarrow> 'a \<Rightarrow> 'a \<Rightarrow> bool" where
  "unordered sp a b = True"

definition regex1 :: regex where
  "regex1 pat = (if pat = ''('' then None else Some (\<lambda>s. startsWith s pat))"

definition no_query :: query where
  "no_query = \<lparr>q_page = None, q_limit = None, q_sortBy = None, q_sortOrder = None,
               q_search = None, q_type = None, q_category = None, q_featured = None,
               q_status = None, q_priority = None, q_role = None, q_isActive = None,
               q_isVisible = None\<rparr>"

definition example_body :: contact_body where
  "example_body = \<lparr>b_name = Some ''Jo'', b_email = Some ''bad'', b_subject = Some ''Hi'',
                   b_message = Some ''short'', b_phone = None\<rparr>"

definition anonymous :: request where
  "anonymous = \<lparr>cookies_token = None, authorization = None\<rparr>"

definition with_cookie :: "string \<Rightarrow> request" where
  "with_cookie t = \<lparr>cookies_token = Some t, authorization = None\<rparr>"

definition with_bearer :: "string \<Rightarrow> request" where
  "with_bearer t = \<lparr>cookies_token = None, authorization = Some (''Bearer '' @ t)\<rparr>"

section \<open>Facts about the store operations\<close>

lemmas fixture_defs = example_body_def store1_def admin1_def alice_def bob_def edu1_def edu2_def proj1_def
  proj2_def contact1_def verify1_def no_query_def anonymous_def with_cookie_def with_bearer_def
  by_sortOrder_def unordered_def regex1_def

lemmas objectId_defs = castObjectId_def isHexDigit_def lowerHex_def

lemmas param_defs = intParam_def param_value.rep_eq param_0.rep_eq param_2.rep_eq

lemma set_insert_by: "set (insert_by le x xs) = insert x (set xs)"
  by (induction xs) auto

lemma set_sort_docs: "set (sort_docs le xs) = set xs"
  unfolding sort_docs_def by (induction xs) (simp_all add: set_insert_by)

lemma set_limit_docs: "set (limit_docs n xs) \<subseteq> set xs"
  by (auto simp: limit_docs_def dest: in_set_takeD)

lemma set_skip_limit: "skip_limit k n xs = Inr ys \<Longrightarrow> set ys \<subseteq> set xs"
  by (auto simp: skip_limit_def split: if_splits dest: in_set_takeD in_set_dropD)

lemma paginate_docs: "paginate le page limit xs = Inr pg \<Longrightarrow> set (docs pg) \<subseteq> set xs"
  by (auto simp: paginate_def Let_def set_sort_docs split: sum.splits dest!: set_skip_limit)


lemma find_holds: "find P xs = Some x \<Longrightarrow> P x"
  by (induction xs) (auto split: if_splits)

lemma find_oid: "find (\<lambda>x. oid x = i) ds = Some d \<Longrightarrow> oid d = i"
  by (induction ds) (auto split: if_splits)

lemma find_save:
  "find (\<lambda>x. oid x = i) ds = Some d \<Longrightarrow> oid d' = i \<Longrightarrow>
   find (\<lambda>x. oid x = i) (save d' ds) = Some d'"
  by (induction ds) (auto simp: save_def split: if_splits)

lemma findById_save:
  assumes "findById ds pid = Inr (Some d)" "oid d' = oid d"
  shows "findById (save d' ds) pid = Inr (Some d')"
proof -
  from assms(1) obtain i where
    i: "castObjectId pid = Some i" "find (\<lambda>x. oid x = i) ds = Some d"
    by (auto simp: findById_def split: option.splits)
  from i(2) have "oid d = i" by (rule find_oid)
  with assms(2) i(2) have "find (\<lambda>x. oid x = i) (save d' ds) = Some d'"
    by (simp add: find_save)
  with i(1) show ?thesis by (simp add: findById_def)
qed

section \<open>Non-admin reads see visible records only\<close>

lemma Education_list_visible:
  assumes "\<not> isAdmin ru" "data (Education_list cmp ru q es) = Some ds"
  shows "list_all isVisible ds"
proof -
  have "set ds \<subseteq> set (filter (Education_matches (Education_list_query ru q)) es)"
    using assms(2)
    by (auto simp: Education_list_def Let_def ok_def set_sort_docs
             dest!: subsetD [OF set_limit_docs])
  moreover have "\<And>d. Education_matches (Education_list_query ru q) d \<Longrightarrow> isVisible d"
    using assms(1) by (simp add: Education_matches_def Education_list_query_def)
  ultimately show ?thesis by (auto simp: list_all_iff)
qed

lemma Education_get_visible:
  assumes "\<not> isAdmin ru" "data (Education_get ru pid es) = Some d"
  shows "isVisible d"
  using assms
  by (auto simp: Education_get_def ok_def fail_def by_id_query_def
           split: option.splits dest!: find_holds)

lemma Project_list_visible:
  assumes "\<not> isAdmin ru" "data (Project_list rx cmp ru q ps) = Some pg"
  shows "list_all isVisible (docs pg)"
proof -
  from assms(2) obtain m le where
    "paginate le (intParam (q_page q) 1) (intParam (q_limit q) 20)
       (filter (Project_matches (Project_list_query m ru q)) ps) = Inr pg"
    by (auto simp: Project_list_def Let_def ok_def fail_def
             split: option.splits sum.splits if_splits)
  then have "set (docs pg) \<subseteq> set (filter (Project_matches (Project_list_query m ru q)) ps)"
    by (rule paginate_docs)
  moreover have "\<And>d. Project_matches (Project_list_query m ru q) d \<Longrightarrow> isVisible d"
    using assms(1) by (simp add: Project_matches_def Project_list_query_def)
  ultimately show ?thesis by (auto simp: list_all_iff)
qed

lemma Project_featured_visible:
  assumes "\<not> isAdmin ru" "data (Project_featured cmp ru q ps) = Some ds"
  shows "list_all isVisible ds"
proof -
  have "set ds \<subseteq> set (filter (Project_matches (Project_featured_query ru)) ps)"
    using assms(2)
    by (auto simp: Project_featured_def Let_def ok_def set_sort_docs
             dest!: subsetD [OF set_limit_docs])
  moreover have "\<And>d. Project_matches (Project_featured_query ru) d \<Longrightarrow> isVisible d"
    using assms(1) by (simp add: Project_matches_def Project_featured_query_def)
  ultimately show ?thesis by (auto simp: list_all_iff)
qed

lemma Project_get_visible:
  assumes "\<not> isAdmin ru" "data (fst (Project_get ru pid ps)) = Some d"
  shows "isVisible d"
  using assms
  by (auto simp: Project_get_def ok_def fail_def by_id_query_def
           split: option.splits dest!: find_holds)

text \<open>What each of the five public handlers returns, for an admin and for any other
  caller.\<close>

lemma by_id_query_admin: "isAdmin ru \<Longrightarrow> by_id_query ru i = (\<lambda>d. oid d = i)"
  by (simp add: by_id_query_def fun_eq_iff)

lemma by_id_query_other: "\<not> isAdmin ru \<Longrightarrow> by_id_query ru i = (\<lambda>d. oid d = i \<and> isVisible d)"
  by (simp add: by_id_query_def fun_eq_iff)

lemma Education_query_admin:
  "isAdmin ru \<Longrightarrow> Education_matches (Education_list_query ru q) = education_wanted q"
  by (auto simp: Education_matches_def Education_list_query_def education_wanted_def
        fun_eq_iff truthy_def split: option.splits)

lemma Education_query_other:
  "\<not> isAdmin ru \<Longrightarrow>
   Education_matches (Education_list_query ru q) = (\<lambda>d. isVisible d \<and> education_wanted q d)"
  by (auto simp: Education_matches_def Education_list_query_def education_wanted_def
        fun_eq_iff truthy_def split: option.splits)

lemma Project_query_admin:
  "isAdmin ru \<Longrightarrow> Project_matches (Project_list_query m ru q) = project_wanted m q"
  by (auto simp: Project_matches_def Project_list_query_def project_wanted_def
        fun_eq_iff truthy_def split: option.splits)

lemma Project_query_other:
  "\<not> isAdmin ru \<Longrightarrow>
   Project_matches (Project_list_query m ru q) = (\<lambda>d. isVisible d \<and> project_wanted m q d)"
  by (auto simp: Project_matches_def Project_list_query_def project_wanted_def
        fun_eq_iff truthy_def split: option.splits)

lemma Project_featured_query_admin:
  "isAdmin ru \<Longrightarrow> Project_matches (Project_featured_query ru) = isFeatured"
  by (simp add: Project_matches_def Project_featured_query_def fun_eq_iff)

lemma Project_featured_query_other:
  "\<not> isAdmin ru \<Longrightarrow>
   Project_matches (Project_featured_query ru) = (\<lambda>d. isVisible d \<and> isFeatured d)"
  by (simp add: Project_matches_def Project_featured_query_def fun_eq_iff)

text \<open>The list of the stored documents that a list handler pages through.\<close>

lemma handlers_for_admin:
  assumes "isAdmin ru"
  shows "Education_list cmp ru q es =
           ok (limit_docs (intParam (q_limit q) 20)
                 (sort_docs (cmp (Education_list_sort q)) (filter (education_wanted q) es)))"
    and "Project_list rx pcmp ru q ps =
           (case search_matcher rx q of
              None \<Rightarrow> fail 500 ''Error fetching projects''
            | Some m \<Rightarrow>
                (case paginate (pcmp (Project_list_sort q)) (intParam (q_page q) 1)
                        (intParam (q_limit q) 20) (filter (project_wanted m q) ps) of
                   Inl e \<Rightarrow> fail 500 ''Error fetching projects''
                 | Inr pg \<Rightarrow> ok pg))"
    and "Project_featured pcmp ru q ps =
           ok (limit_docs (intParam (q_limit q) 6)
                 (sort_docs (pcmp [(''sortOrder'', 1), (''createdAt'', - 1)])
                    (filter isFeatured ps)))"
    and "castObjectId pid = Some i \<Longrightarrow>
         Education_get ru pid es =
           (case find (\<lambda>d. oid d = i) es of
              None \<Rightarrow> fail 404 ''Education record not found''
            | Some d \<Rightarrow> ok d)"
    and "castObjectId pid = Some i \<Longrightarrow>
         Project_get ru pid ps =
           (case find (\<lambda>d. oid d = i) ps of
              None \<Rightarrow> (fail 404 ''Project not found'', ps)
            | Some d \<Rightarrow>
                (ok d, map (\<lambda>x. if oid x = i then x\<lparr>views := views x + 1\<rparr> else x) ps))"
  using assms
  by (simp_all add: Education_list_def Project_list_def Project_featured_def Education_get_def
        Project_get_def Let_def Education_query_admin Project_query_admin
        Project_featured_query_admin by_id_query_admin
        split: option.splits sum.splits)

lemma handlers_for_others:
  assumes "\<not> isAdmin ru"
  shows "Education_list cmp ru q es =
           ok (limit_docs (intParam (q_limit q) 20)
                 (sort_docs (cmp (Education_list_sort q))
                    (filter (\<lambda>d. isVisible d \<and> education_wanted q d) es)))"
    and "Project_list rx pcmp ru q ps =
           (case search_matcher rx q of
              None \<Rightarrow> fail 500 ''Error fetching projects''
            | Some m \<Rightarrow>
                (case paginate (pcmp (Project_list_sort q)) (intParam (q_page q) 1)
                        (intParam (q_limit q) 20)
                        (filter (\<lambda>d. isVisible d \<and> project_wanted m q d) ps) of
                   Inl e \<Rightarrow> fail 500 ''Error fetching projects''
                 | Inr pg \<Rightarrow> ok pg))"
    and "Project_featured pcmp ru q ps =
           ok (limit_docs (intParam (q_limit q) 6)
                 (sort_docs (pcmp [(''sortOrder'', 1), (''createdAt'', - 1)])
                    (filter (\<lambda>d. isVisible d \<and> isFeatured d) ps)))"
    and "castObjectId pid = Some i \<Longrightarrow>
         Education_get ru pid es =
           (case find (\<lambda>d. oid d = i \<and> isVisible d) es of
              None \<Rightarrow> fail 404 ''Education record not found''
            | Some d \<Rightarrow> ok d)"
    and "castObjectId pid = Some i \<Longrightarrow>
         Project_get ru pid ps =
           (case find (\<lambda>d. oid d = i \<and> isVisible d) ps of
              None \<Rightarrow> (fail 404 ''Project not found'', ps)
            | Some d \<Rightarrow>
                (ok d, map (\<lambda>x. if oid x = i then x\<lparr>views := views x + 1\<rparr> else x) ps))"
  using assms
  by (simp_all add: Education_list_def Project_list_def Project_featured_def Education_get_def
        Project_get_def Let_def Education_query_other Project_query_other
        Project_featured_query_other by_id_query_other
        split: option.splits sum.splits)

text \<open>
  \<open>optionalAuth\<close> always continues, and the principal it attaches is an admin exactly
  when the request is by an authenticated admin.
\<close>

lemma optionalAuth_admin:
  "\<exists>ru. (optionalAuth vt us req :: 'a response + user option) = Inr ru \<and>
        isAdmin ru = authenticated_admin vt us req"
  by (auto simp: optionalAuth_def authenticated_admin_def findById_def isAdmin_def
        select_minus_password_def split: option.splits sum.splits)

text \<open>
  \<open>optionalAuth\<close> never answers itself, so each public read route runs its handler, on
  the principal \<open>optionalAuth\<close> attached.
\<close>

lemma optionalAuth_any:
  assumes "(optionalAuth vt us req :: 'a response + user option) = Inr ru"
  shows "(optionalAuth vt us req :: 'b response + user option) = Inr ru"
  using assms
  by (auto simp: optionalAuth_def split: option.splits sum.splits if_splits)

lemma routes_run_handlers:
  assumes "(optionalAuth vt (users st) req :: unit response + user option) = Inr ru"
  shows "route_education_list vt cmp req q st = (Education_list cmp ru q (educations st), st)"
    and "route_education_get vt req pid st = (Education_get ru pid (educations st), st)"
    and "route_project_list vt rx pcmp req q st
           = (Project_list rx pcmp ru q (projects st), st)"
    and "route_project_featured vt pcmp req q st
           = (Project_featured pcmp ru q (projects st), st)"
    and "route_project_get vt req pid st
           = (fst (Project_get ru pid (projects st)),
              st\<lparr>projects := snd (Project_get ru pid (projects st))\<rparr>)"
  by (simp_all add: route_education_list_def route_education_get_def route_project_list_def
        route_project_featured_def route_project_get_def with_optionalAuth_def
        optionalAuth_any [OF assms] split: prod.splits)

lemma routes_visible:
  assumes "\<not> authenticated_admin vt (users st) req"
  shows "data (fst (route_education_list vt cmp req q st)) = Some eds \<Longrightarrow> list_all isVisible eds"
    and "data (fst (route_education_get vt req pid st)) = Some e \<Longrightarrow> isVisible e"
    and "data (fst (route_project_list vt rx pcmp req q st)) = Some pg \<Longrightarrow>
         list_all isVisible (docs pg)"
    and "data (fst (route_project_featured vt pcmp req q st)) = Some pds \<Longrightarrow>
         list_all isVisible pds"
    and "data (fst (route_project_get vt req pid st)) = Some p \<Longrightarrow> isVisible p"
proof -
  show "list_all isVisible eds" if d: "data (fst (route_education_list vt cmp req q st)) = Some eds"
  proof -
    from optionalAuth_admin [of vt "users st" req, where 'a = "education list"] assms
    obtain ru where "(optionalAuth vt (users st) req :: education list response + user option)
        = Inr ru" "\<not> isAdmin ru" by auto
    with d show ?thesis
      by (auto simp: route_education_list_def with_optionalAuth_def
            intro: Education_list_visible)
  qed
  show "isVisible e" if d: "data (fst (route_education_get vt req pid st)) = Some e"
  proof -
    from optionalAuth_admin [of vt "users st" req, where 'a = education] assms
    obtain ru where "(optionalAuth vt (users st) req :: education response + user option)
        = Inr ru" "\<not> isAdmin ru" by auto
    with d show ?thesis
      by (auto simp: route_education_get_def with_optionalAuth_def
            intro: Education_get_visible)
  qed
  show "list_all isVisible (docs pg)"
    if d: "data (fst (route_project_list vt rx pcmp req q st)) = Some pg"
  proof -
    from optionalAuth_admin [of vt "users st" req, where 'a = "project paged"] assms
    obtain ru where "(optionalAuth vt (users st) req :: project paged response + user option)
        = Inr ru" "\<not> isAdmin ru" by auto
    with d show ?thesis
      by (auto simp: route_project_list_def with_optionalAuth_def
            intro: Project_list_visible)
  qed
  show "list_all isVisible pds"
    if d: "data (fst (route_project_featured vt pcmp req q st)) = Some pds"
  proof -
    from optionalAuth_admin [of vt "users st" req, where 'a = "project list"] assms
    obtain ru where "(optionalAuth vt (users st) req :: project list response + user option)
        = Inr ru" "\<not> isAdmin ru" by auto
    with d show ?thesis
      by (auto simp: route_project_featured_def with_optionalAuth_def
            intro: Project_featured_visible)
  qed
  show "isVisible p" if d: "data (fst (route_project_get vt req pid st)) = Some p"
  proof -
    from optionalAuth_admin [of vt "users st" req, where 'a = project] assms
    obtain ru where o: "(optionalAuth vt (users st) req :: project response + user option)
        = Inr ru" and n: "\<not> isAdmin ru" by auto
    from d o have "data (fst (Project_get ru pid (projects st))) = Some p"
      by (simp add: route_project_get_def with_optionalAuth_def split: prod.splits)
    with n show ?thesis by (rule Project_get_visible)
  qed
qed

text \<open>The paginated list of all education records is served to admins only.\<close>

lemma Education_admin_all_admin_only:
  assumes "data (fst (route_education_admin_all vt rx cmp req q st)) = Some pg"
  shows "\<exists>u. (protect vt (users st) req :: education paged response + user) = Inr u \<and>
             isAdmin (Some u)"
proof (cases "protect vt (users st) req :: education paged response + user")
  case (Inl r)
  have "\<exists>r'. (protect vt (users st) req :: education paged response + user) = Inl r' \<and>
             data r' = None"
    using Inl
    by (auto simp: protect_def fail_def split: option.splits sum.splits if_splits)
  with assms show ?thesis
    by (auto simp: route_education_admin_all_def with_admin_def with_protect_def)
next
  case (Inr u)
  with assms show ?thesis
    by (auto simp: route_education_admin_all_def with_admin_def with_protect_def
          adminOnly_def isAdmin_def fail_def split: if_splits)
qed

text \<open>
  Claim C1. For a caller who is not an authenticated admin (\<^verbatim>\<open>req.user\<close> unset, or
  with a role other than admin), every record in the data of the Education and Project
  list and get-by-id responses has \<open>isVisible\<close> true: the list handlers page through
  the visible records among those the request asks for, and the get-by-id handlers
  answer with the record of that id only if it is visible. For an admin the visibility
  filter is not applied: the list handlers page through all the records the request
  asks for, and the get-by-id handlers answer with the record of that id, visible or
  not; whether a record matches an admin's query does not depend on its \<open>isVisible\<close>
  field. The list of all education records, hidden ones included, has data for an admin
  only. On the routes, \<open>optionalAuth\<close> attaches an admin exactly when the request is
  by an authenticated admin (its token verifies and names an active user whose role is
  admin) and each of the five routes runs its handler on the principal attached, so a
  request that is not by an authenticated admin gets visible records only.
\<close>

theorem non_admin_reads_visible_only:
  "(\<not> isAdmin ru \<longrightarrow>
      (\<forall>ds. data (Education_list cmp ru q es) = Some ds \<longrightarrow> list_all isVisible ds) \<and>
      (\<forall>d. data (Education_get ru pid es) = Some d \<longrightarrow> isVisible d) \<and>
      (\<forall>pg. data (Project_list rx pcmp ru q ps) = Some pg \<longrightarrow> list_all isVisible (docs pg)) \<and>
      (\<forall>ds. data (Project_featured pcmp ru q ps) = Some ds \<longrightarrow> list_all isVisible ds) \<and>
      (\<forall>d. data (fst (Project_get ru pid ps)) = Some d \<longrightarrow> isVisible d)) \<and>
   (\<not> isAdmin ru \<longrightarrow>
      Education_list cmp ru q es =
        ok (limit_docs (intParam (q_limit q) 20)
              (sort_docs (cmp (Education_list_sort q))
                 (filter (\<lambda>d. isVisible d \<and> education_wanted q d) es))) \<and>
      Project_list rx pcmp ru q ps =
        (case search_matcher rx q of
           None \<Rightarrow> fail 500 ''Error fetching projects''
         | Some m \<Rightarrow>
             (case paginate (pcmp (Project_list_sort q)) (intParam (q_page q) 1)
                     (intParam (q_limit q) 20)
                     (filter (\<lambda>d. isVisible d \<and> project_wanted m q d) ps) of
                Inl e \<Rightarrow> fail 500 ''Error fetching projects''
              | Inr pg \<Rightarrow> ok pg)) \<and>
      Project_featured pcmp ru q ps =
        ok (limit_docs (intParam (q_limit q) 6)
              (sort_docs (pcmp [(''sortOrder'', 1), (''createdAt'', - 1)])
                 (filter (\<lambda>d. isVisible d \<and> isFeatured d) ps))) \<and>
      (castObjectId pid = Some i \<longrightarrow>
         Education_get ru pid es =
           (case find (\<lambda>d. oid d = i \<and> isVisible d) es of
              None \<Rightarrow> fail 404 ''Education record not found''
            | Some d \<Rightarrow> ok d) \<and>
         Project_get ru pid ps =
           (case find (\<lambda>d. oid d = i \<and> isVisible d) ps of
              None \<Rightarrow> (fail 404 ''Project not found'', ps)
            | Some d \<Rightarrow>
                (ok d, map (\<lambda>x. if oid x = i then x\<lparr>views := views x + 1\<rparr> else x) ps)))) \<and>
   (isAdmin ru \<longrightarrow>
      Education_list cmp ru q es =
        ok (limit_docs (intParam (q_limit q) 20)
              (sort_docs (cmp (Education_list_sort q)) (filter (education_wanted q) es))) \<and>
      Project_list rx pcmp ru q ps =
        (case search_matcher rx q of
           None \<Rightarrow> fail 500 ''Error fetching projects''
         | Some m \<Rightarrow>
             (case paginate (pcmp (Project_list_sort q)) (intParam (q_page q) 1)
                     (intParam (q_limit q) 20) (filter (project_wanted m q) ps) of
                Inl e \<Rightarrow> fail 500 ''Error fetching projects''
              | Inr pg \<Rightarrow> ok pg)) \<and>
      Project_featured pcmp ru q ps =
        ok (limit_docs (intParam (q_limit q) 6)
              (sort_docs (pcmp [(''sortOrder'', 1), (''createdAt'', - 1)])
                 (filter isFeatured ps))) \<and>
      (castObjectId pid = Some i \<longrightarrow>
         Education_get ru pid es =
           (case find (\<lambda>d. oid d = i) es of
              None \<Rightarrow> fail 404 ''Education record not found''
            | Some d \<Rightarrow> ok d) \<and>
         Project_get ru pid ps =
           (case find (\<lambda>d. oid d = i) ps of
              None \<Rightarrow> (fail 404 ''Project not found'', ps)
            | Some d \<Rightarrow>
                (ok d, map (\<lambda>x. if oid x = i then x\<lparr>views := views x + 1\<rparr> else x) ps)))) \<and>
   (isAdmin ru \<longrightarrow>
      Education_matches (Education_list_query ru q) (e\<lparr>isVisible := b\<rparr>)
        = Education_matches (Education_list_query ru q) e \<and>
      by_id_query ru i (e\<lparr>isVisible := b\<rparr>) = by_id_query ru i e \<and>
      Project_matches (Project_list_query m ru q) (p\<lparr>isVisible := b\<rparr>)
        = Project_matches (Project_list_query m ru q) p \<and>
      Project_matches (Project_featured_query ru) (p\<lparr>isVisible := b\<rparr>)
        = Project_matches (Project_featured_query ru) p \<and>
      by_id_query ru i (p\<lparr>isVisible := b\<rparr>) = by_id_query ru i p) \<and>
   (\<forall>pg. data (fst (route_education_admin_all vt rx cmp req q st)) = Some pg \<longrightarrow>
      (\<exists>u. (protect vt (users st) req :: education paged response + user) = Inr u \<and>
           isAdmin (Some u))) \<and>
   (\<exists>ru'. (optionalAuth vt (users st) req :: unit response + user option) = Inr ru' \<and>
          isAdmin ru' = authenticated_admin vt (users st) req \<and>
          route_education_list vt cmp req q st = (Education_list cmp ru' q (educations st), st) \<and>
          route_education_get vt req pid st = (Education_get ru' pid (educations st), st) \<and>
          route_project_list vt rx pcmp req q st
            = (Project_list rx pcmp ru' q (projects st), st) \<and>
          route_project_featured vt pcmp req q st
            = (Project_featured pcmp ru' q (projects st), st) \<and>
          route_project_get vt req pid st
            = (fst (Project_get ru' pid (projects st)),
               st\<lparr>projects := snd (Project_get ru' pid (projects st))\<rparr>)) \<and>
   (\<not> authenticated_admin vt (users st) req \<longrightarrow>
      (\<forall>ds. data (fst (route_education_list vt cmp req q st)) = Some ds \<longrightarrow>
         list_all isVisible ds) \<and>
      (\<forall>d. data (fst (route_education_get vt req pid st)) = Some d \<longrightarrow> isVisible d) \<and>
      (\<forall>pg. data (fst (route_project_list vt rx pcmp req q st)) = Some pg \<longrightarrow>
         list_all isVisible (docs pg)) \<and>
      (\<forall>ds. data (fst (route_project_featured vt pcmp req q st)) = Some ds \<longrightarrow>
         list_all isVisible ds) \<and>
      (\<forall>d. data (fst (route_project_get vt req pid st)) = Some d \<longrightarrow> isVisible d))"
  apply (intro conjI)
  subgoal
    using Education_list_visible [of ru cmp q es] Education_get_visible [of ru pid es]
      Project_list_visible [of ru rx pcmp q ps] Project_featured_visible [of ru pcmp q ps]
      Project_get_visible [of ru pid ps]
    by blast
  subgoal
    using handlers_for_others(1) [where ru = ru and cmp = cmp and q = q and es = es]
      handlers_for_others(2) [where ru = ru and rx = rx and pcmp = pcmp and q = q and ps = ps]
      handlers_for_others(3) [where ru = ru and pcmp = pcmp and q = q and ps = ps]
      handlers_for_others(4) [where ru = ru and pid = pid and i = i and es = es]
      handlers_for_others(5) [where ru = ru and pid = pid and i = i and ps = ps]
    by blast
  subgoal
    using handlers_for_admin(1) [where ru = ru and cmp = cmp and q = q and es = es]
      handlers_for_admin(2) [where ru = ru and rx = rx and pcmp = pcmp and q = q and ps = ps]
      handlers_for_admin(3) [where ru = ru and pcmp = pcmp and q = q and ps = ps]
      handlers_for_admin(4) [where ru = ru and pid = pid and i = i and es = es]
      handlers_for_admin(5) [where ru = ru and pid = pid and i = i and ps = ps]
    by blast
  subgoal
    by (simp add: Education_matches_def Education_list_query_def by_id_query_def
          Project_matches_def Project_list_query_def Project_featured_query_def
          split: option.splits)
  subgoal
    using Education_admin_all_admin_only [of vt rx cmp req q st] by blast
  subgoal
  proof -
    from optionalAuth_admin [of vt "users st" req, where 'a = unit]
    obtain ru' where a: "(optionalAuth vt (users st) req :: unit response + user option) = Inr ru'"
      and b: "isAdmin ru' = authenticated_admin vt (users st) req"
      by blast
    from a b routes_run_handlers(1) [OF a, of cmp q] routes_run_handlers(2) [OF a, of pid]
      routes_run_handlers(3) [OF a, of rx pcmp q] routes_run_handlers(4) [OF a, of pcmp q]
      routes_run_handlers(5) [OF a, of pid]
    show ?thesis by blast
  qed
  subgoal
    using routes_visible(1) [where vt = vt and st = st and req = req and cmp = cmp and q = q]
      routes_visible(2) [where vt = vt and st = st and req = req and pid = pid]
      routes_visible(3) [where vt = vt and st = st and req = req and rx = rx and pcmp = pcmp
        and q = q]
      routes_visible(4) [where vt = vt and st = st and req = req and pcmp = pcmp and q = q]
      routes_visible(5) [where vt = vt and st = st and req = req and pid = pid]
    by blast
  done

text \<open>
  At the small store. Alice, a plain user, lists the education records and gets the
  visible one only, and does not get the hidden record by its id. The admin lists both
  records and gets the hidden one by its id. A request without a token is not by an
  authenticated admin and is answered 404 for the hidden record; the admin's token
  makes the request one by an authenticated admin.
\<close>

theorem non_admin_reads_visible_only_witness:
  "\<not> isAdmin (Some alice) \<and>
   Education_list by_sortOrder (Some alice) no_query (educations store1) = ok [edu1] \<and>
   list_all isVisible [edu1] \<and>
   castObjectId ''64b7f0c2a1b2c3d4e5f60722'' = Some ''64b7f0c2a1b2c3d4e5f60722'' \<and>
   Education_get (Some alice) ''64b7f0c2a1b2c3d4e5f60722'' (educations store1)
     = fail 404 ''Education record not found'' \<and>
   isAdmin (Some admin1) \<and>
   Education_list by_sortOrder (Some admin1) no_query (educations store1) = ok [edu1, edu2] \<and>
   Education_get (Some admin1) ''64b7f0c2a1b2c3d4e5f60722'' (educations store1) = ok edu2 \<and>
   Project_featured by_sortOrder (Some admin1) no_query (projects store1) = ok [proj1, proj2] \<and>
   fst (Project_get (Some admin1) ''64b7f0c2a1b2c3d4e5f60732'' (projects store1)) = ok proj2 \<and>
   \<not> isVisible edu2 \<and> \<not> isVisible proj2 \<and>
   \<not> authenticated_admin verify1 (users store1) anonymous \<and>
   authenticated_admin verify1 (users store1) (with_cookie ''admin.jwt'') \<and>
   data (fst (route_education_get verify1 anonymous ''64b7f0c2a1b2c3d4e5f60722'' store1)) = None \<and>
   route_education_get verify1 (with_cookie ''admin.jwt'') ''64b7f0c2a1b2c3d4e5f60722'' store1
     = (ok edu2, store1)"
proof -
  let ?id = "''64b7f0c2a1b2c3d4e5f60722''"
  have 1: "\<not> isAdmin (Some alice)" by (simp add: isAdmin_def alice_def)
  have 2: "isAdmin (Some admin1)" by (simp add: isAdmin_def admin1_def)
  have 3: "castObjectId ?id = Some ?id" by (simp add: objectId_defs)
  have 4: "castObjectId ''64b7f0c2a1b2c3d4e5f60732'' = Some ''64b7f0c2a1b2c3d4e5f60732''"
    by (simp add: objectId_defs)
  have 5: "\<not> authenticated_admin verify1 (users store1) anonymous"
    by (simp add: authenticated_admin_def token_of_def truthy_def anonymous_def)
  have 6: "authenticated_admin verify1 (users store1) (with_cookie ''admin.jwt'')"
    by (simp add: authenticated_admin_def token_of_def truthy_def objectId_defs fixture_defs)
  note al = non_admin_reads_visible_only [where ru = "Some alice" and cmp = by_sortOrder
      and pcmp = by_sortOrder and rx = regex1 and q = no_query and es = "educations store1"
      and ps = "projects store1" and pid = ?id and i = ?id and e = edu1 and p = proj1
      and b = True and m = "\<lambda>s. True" and vt = verify1 and req = anonymous and st = store1]
  note ad = non_admin_reads_visible_only [where ru = "Some admin1" and cmp = by_sortOrder
      and pcmp = by_sortOrder and rx = regex1 and q = no_query and es = "educations store1"
      and ps = "projects store1" and pid = ?id and i = ?id and e = edu1 and p = proj1
      and b = True and m = "\<lambda>s. True" and vt = verify1 and req = anonymous and st = store1]
  note ad2 = non_admin_reads_visible_only [where ru = "Some admin1" and cmp = by_sortOrder
      and pcmp = by_sortOrder and rx = regex1 and q = no_query and es = "educations store1"
      and ps = "projects store1" and pid = "''64b7f0c2a1b2c3d4e5f60732''"
      and i = "''64b7f0c2a1b2c3d4e5f60732''" and e = edu1 and p = proj1
      and b = True and m = "\<lambda>s. True" and vt = verify1 and req = anonymous and st = store1]
  note others = al [THEN conjunct2, THEN conjunct1, THEN mp, OF 1]
  note admin = ad [THEN conjunct2, THEN conjunct2, THEN conjunct1, THEN mp, OF 2]
  note admin2 = ad2 [THEN conjunct2, THEN conjunct2, THEN conjunct1, THEN mp, OF 2]
  note routes = al [THEN conjunct2, THEN conjunct2, THEN conjunct2, THEN conjunct2,
      THEN conjunct2, THEN conjunct2, THEN mp, OF 5]
  from others [THEN conjunct1]
  have 7: "Education_list by_sortOrder (Some alice) no_query (educations store1) = ok [edu1]"
    by (simp add: Education_list_sort_def education_wanted_def orDefault_def truthy_def
          direction_def sort_docs_def limit_docs_def param_defs fixture_defs)
  have 8: "list_all isVisible [edu1]"
    using al [THEN conjunct1, THEN mp, OF 1, THEN conjunct1] 7 by (simp add: ok_def)
  from others [THEN conjunct2, THEN conjunct2, THEN conjunct2, THEN mp, OF 3, THEN conjunct1]
  have 9: "Education_get (Some alice) ?id (educations store1)
      = fail 404 ''Education record not found''"
    by (simp add: fixture_defs)
  from admin [THEN conjunct1]
  have 10: "Education_list by_sortOrder (Some admin1) no_query (educations store1)
      = ok [edu1, edu2]"
    by (simp add: Education_list_sort_def education_wanted_def orDefault_def truthy_def
          direction_def sort_docs_def limit_docs_def param_defs fixture_defs)
  from admin [THEN conjunct2, THEN conjunct2, THEN conjunct2, THEN mp, OF 3, THEN conjunct1]
  have 11: "Education_get (Some admin1) ?id (educations store1) = ok edu2"
    by (simp add: fixture_defs)
  from admin [THEN conjunct2, THEN conjunct2, THEN conjunct1]
  have 12: "Project_featured by_sortOrder (Some admin1) no_query (projects store1)
      = ok [proj1, proj2]"
    by (simp add: sort_docs_def limit_docs_def param_defs fixture_defs)
  from admin2 [THEN conjunct2, THEN conjunct2, THEN conjunct2, THEN mp, OF 4, THEN conjunct2]
  have 13: "fst (Project_get (Some admin1) ''64b7f0c2a1b2c3d4e5f60732''
      (projects store1)) = ok proj2"
    by (simp add: fixture_defs)
  have 14: "\<not> isVisible edu2" "\<not> isVisible proj2" by (simp_all add: fixture_defs)
  have 15: "data (fst (route_education_get verify1 anonymous ?id store1)) = None"
  proof (cases "data (fst (route_education_get verify1 anonymous ?id store1))")
    case None
    then show ?thesis .
  next
    case (Some d)
    with routes have v: "isVisible d" by blast
    from Some have "d = edu2"
      by (simp add: route_education_get_def with_optionalAuth_def optionalAuth_def
            token_of_def truthy_def Education_get_def by_id_query_def
            isAdmin_def ok_def fail_def objectId_defs fixture_defs)
    with v 14 show ?thesis by simp
  qed
  note adr = non_admin_reads_visible_only [where ru = "Some admin1" and cmp = by_sortOrder
      and pcmp = by_sortOrder and rx = regex1 and q = no_query and es = "educations store1"
      and ps = "projects store1" and pid = ?id and i = ?id and e = edu1 and p = proj1
      and b = True and m = "\<lambda>s. True" and vt = verify1
      and req = "with_cookie ''admin.jwt''" and st = store1]
  from adr [THEN conjunct2, THEN conjunct2, THEN conjunct2, THEN conjunct2, THEN conjunct2,
      THEN conjunct1]
  obtain ru' where r: "(optionalAuth verify1 (users store1) (with_cookie ''admin.jwt'')
        :: unit response + user option) = Inr ru'"
      "route_education_get verify1 (with_cookie ''admin.jwt'') ?id store1
        = (Education_get ru' ?id (educations store1), store1)"
    by blast
  from r(1) have "ru' = Some (select_minus_password admin1)"
    by (simp add: optionalAuth_def token_of_def truthy_def findById_def objectId_defs
          fixture_defs)
  with r(2) 11 have 16: "route_education_get verify1 (with_cookie ''admin.jwt'') ?id store1
      = (ok edu2, store1)"
    by (simp add: Education_get_def by_id_query_def isAdmin_def select_minus_password_def
          objectId_defs fixture_defs)
  from 1 2 3 5 6 7 8 9 10 11 12 13 14 15 16 show ?thesis by simp
qed

section \<open>Requests without a valid token\<close>

lemma protect_lacks:
  assumes "lacks_valid_token vt us req"
  shows "\<exists>r. (protect vt us req :: 'a response + user) = Inl r \<and> status r = 401"
proof (cases "token_of req")
  case None
  then show ?thesis by (simp add: protect_def fail_def)
next
  case (Some t)
  show ?thesis
  proof (cases "t = []")
    case True
    with Some show ?thesis by (simp add: protect_def fail_def)
  next
    case False
    show ?thesis
    proof (cases "vt t")
      case (Inl e)
      with Some False show ?thesis by (simp add: protect_def fail_def)
    next
      case (Inr d)
      with assms Some False show ?thesis
        by (auto simp: lacks_valid_token_def protect_def findById_def fail_def
                 split: option.splits)
    qed
  qed
qed

lemma with_protect_lacks:
  assumes "lacks_valid_token vt (users st) req"
  shows "status (fst (with_protect vt req st h)) = 401 \<and> snd (with_protect vt req st h) = st"
proof -
  from protect_lacks [OF assms]
  obtain r :: "'a response" where "protect vt (users st) req = Inl r" "status r = 401"
    by blast
  then show ?thesis by (simp add: with_protect_def)
qed

text \<open>
  Claim C2. A request to a route guarded by \<open>protect\<close> that carries no token, or a
  token that fails verification, or a token whose principal is not found or is not
  active, is answered with status 401 and the store is unchanged. This holds for every
  handler behind \<open>protect\<close>, with or without \<open>adminOnly\<close> after it, and so for
  the routes that write (the like, the two visibility toggles, and the role, status and
  delete routes of users) and for the admin routes that read.
\<close>

theorem protect_fails_closed:
  assumes "lacks_valid_token vt (users st) req"
  shows "status (fst (with_protect vt req st h)) = 401 \<and> snd (with_protect vt req st h) = st \<and>
         status (fst (with_admin vt req st h)) = 401 \<and> snd (with_admin vt req st h) = st \<and>
         status (fst (route_project_like vt req pid now st)) = 401 \<and>
         snd (route_project_like vt req pid now st) = st \<and>
         status (fst (route_education_visibility vt req pid st)) = 401 \<and>
         snd (route_education_visibility vt req pid st) = st \<and>
         status (fst (route_project_visibility vt req pid st)) = 401 \<and>
         snd (route_project_visibility vt req pid st) = st \<and>
         status (fst (route_user_role vt req pid r st)) = 401 \<and>
         snd (route_user_role vt req pid r st) = st \<and>
         status (fst (route_user_status vt req pid v st)) = 401 \<and>
         snd (route_user_status vt req pid v st) = st \<and>
         status (fst (route_user_delete vt req pid st)) = 401 \<and>
         snd (route_user_delete vt req pid st) = st \<and>
         status (fst (route_user_all vt rx ucmp req q st)) = 401 \<and>
         status (fst (route_user_get vt req pid st)) = 401 \<and>
         status (fst (route_contact_list vt rx ccmp req q st)) = 401 \<and>
         status (fst (route_education_admin_all vt rx ecmp req q st)) = 401"
  unfolding with_admin_def route_project_like_def route_education_visibility_def
    route_project_visibility_def route_user_role_def route_user_status_def
    route_user_delete_def route_user_all_def route_user_get_def route_contact_list_def
    route_education_admin_all_def
  by (simp add: with_protect_lacks [OF assms])

text \<open>
  At the small store: no token, an expired token, and the token of Bob, whose account
  is not active. Bob's request to delete Alice is answered 401 and deletes nothing.
\<close>

theorem protect_fails_closed_witness:
  "lacks_valid_token verify1 (users store1) anonymous \<and>
   lacks_valid_token verify1 (users store1) (with_cookie ''expired.jwt'') \<and>
   lacks_valid_token verify1 (users store1) (with_bearer ''bob.jwt'') \<and>
   status (fst (route_user_delete verify1 (with_bearer ''bob.jwt'')
                  ''64b7f0c2a1b2c3d4e5f60719'' store1)) = 401 \<and>
   snd (route_user_delete verify1 (with_bearer ''bob.jwt'')
          ''64b7f0c2a1b2c3d4e5f60719'' store1) = store1"
proof -
  have a: "lacks_valid_token verify1 (users store1) anonymous"
    by (simp add: lacks_valid_token_def token_of_def anonymous_def truthy_def)
  have b: "lacks_valid_token verify1 (users store1) (with_cookie ''expired.jwt'')"
    by (simp add: lacks_valid_token_def token_of_def with_cookie_def truthy_def verify1_def)
  have c: "lacks_valid_token verify1 (users store1) (with_bearer ''bob.jwt'')"
    by (simp add: lacks_valid_token_def token_of_def with_bearer_def truthy_def verify1_def
          objectId_defs store1_def admin1_def alice_def bob_def)
  from a b c
    protect_fails_closed [OF c, where pid = "''64b7f0c2a1b2c3d4e5f60719''" and now = 0
      and r = None and v = JUndefined and h = "\<lambda>u. (fail 500 [] :: unit response, store1)"
      and rx = regex1 and ucmp = unordered and ccmp = unordered and ecmp = unordered
      and q = no_query]
  show ?thesis by simp
qed

section \<open>The guard against acting on one's own account\<close>

text \<open>
  The guard of the role, status and delete routes holds when the path parameter is the
  principal's id as \<^verbatim>\<open>toString()\<close> writes it and, for the status route, the body
  holds the boolean \<^verbatim>\<open>false\<close>.
\<close>

lemma self_action_guard:
  "User_role u (oid u) (Some ''user'') us
     = (fail 400 ''You cannot demote yourself from admin role'', us) \<and>
   User_status u (oid u) (JBool False) us
     = (fail 400 ''You cannot deactivate your own account'', us) \<and>
   User_delete u (oid u) us = (fail 400 ''You cannot delete your own account'', us)"
  by (simp add: User_role_def User_status_def User_delete_def isBoolean_def js_truthy_def)

text \<open>
  Claim C3. An admin's request to set their own role to \<^verbatim>\<open>user\<close>, to set their own
  \<open>isActive\<close> to false, or to delete their own account is to be answered 400 with
  the stored record unchanged. The routes are written to ensure this (``Prevent admin
  from deleting themselves'') and miss it: the guard compares the path parameter with
  the principal's id as strings, while the store casts the parameter to an ObjectId.
  The admin's own id written in upper-case hexadecimal digits passes the guard and still
  names the admin's record, so the admin deletes and demotes their own account with
  status 200. The status route has a second gap: the string \<^verbatim>\<open>"false"\<close> passes
  \<^verbatim>\<open>isBoolean()\<close>, is truthy for the guard, and is cast to \<open>False\<close> by the store.
  The routes evaluated at these requests of the admin of the small store:
\<close>

theorem self_action_guard_bypass:
  "(protect verify1 (users store1) (with_cookie ''admin.jwt'') :: user response + user)
     = Inr (select_minus_password admin1) \<and>
   castObjectId ''64B7F0C2A1B2C3D4E5F60718'' = Some (oid admin1) \<and>
   route_user_delete verify1 (with_cookie ''admin.jwt'') ''64B7F0C2A1B2C3D4E5F60718'' store1
     = (ok_message ''User deleted successfully'' None, store1\<lparr>users := [alice, bob]\<rparr>) \<and>
   route_user_role verify1 (with_cookie ''admin.jwt'') ''64B7F0C2A1B2C3D4E5F60718''
       (Some ''user'') store1
     = (ok_message ''User role updated to user successfully''
          (Some (admin1\<lparr>password := None, role := ''user''\<rparr>)),
        store1\<lparr>users := [admin1\<lparr>role := ''user''\<rparr>, alice, bob]\<rparr>) \<and>
   route_user_status verify1 (with_cookie ''admin.jwt'') ''64b7f0c2a1b2c3d4e5f60718''
       (JStr ''false'') store1
     = (ok_message ''User activated successfully''
          (Some (admin1\<lparr>password := None, isActive := False\<rparr>)),
        store1\<lparr>users := [admin1\<lparr>isActive := False\<rparr>, alice, bob]\<rparr>)"
  by (simp add: route_user_delete_def route_user_role_def route_user_status_def
        with_admin_def with_protect_def protect_def token_of_def truthy_def findById_def
        objectId_defs select_minus_password_def adminOnly_def User_delete_def User_role_def
        User_status_def isBoolean_def js_truthy_def castBoolean_def findByIdAndDelete_def
        findByIdAndUpdate_def save_def orDefault_def fixture_defs)

section \<open>The like toggle\<close>

lemma findIndex_none: "\<forall>x \<in> set xs. \<not> p x \<Longrightarrow> findIndex p xs = - 1"
  by (induction xs) simp_all

lemma findIndex_last:
  "\<forall>x \<in> set xs. \<not> p x \<Longrightarrow> p y \<Longrightarrow> findIndex p (xs @ [y]) = int (length xs)"
  by (induction xs) (simp_all add: Let_def)

lemma splice1_last: "splice1 (int (length xs)) (xs @ [y]) = xs"
  by (simp add: splice1_def)

lemma likes_of_zero: "likes_of p d = 0 \<longleftrightarrow> (\<forall>l \<in> set (likes d). userId l \<noteq> p)"
  by (auto simp: likes_of_def filter_empty_conv)

text \<open>One call of the route on a project the principal has not liked adds the like.\<close>

lemma Project_like_adds:
  assumes "findById ps pid = Inr (Some d)" and "\<forall>l \<in> set (likes d). userId l \<noteq> oid u"
  shows "findById (snd (Project_like u pid now ps)) pid
           = Inr (Some (d\<lparr>likes := likes d @ [\<lparr>userId = oid u, timestamp = now\<rparr>]\<rparr>))"
proof -
  from assms(2) have "findIndex (\<lambda>l. userId l = oid u) (likes d) = - 1"
    by (rule findIndex_none)
  with assms(1)
    findById_save [OF assms(1), of "d\<lparr>likes := likes d @ [\<lparr>userId = oid u, timestamp = now\<rparr>]\<rparr>"]
  show ?thesis by (simp add: Project_like_def Let_def)
qed

text \<open>One call on a project whose last like is the principal's only one removes it.\<close>

lemma Project_like_removes:
  assumes "findById ps pid = Inr (Some d)"
    and "likes d = ls @ [\<lparr>userId = oid u, timestamp = t\<rparr>]"
    and "\<forall>l \<in> set ls. userId l \<noteq> oid u"
  shows "findById (snd (Project_like u pid now ps)) pid = Inr (Some (d\<lparr>likes := ls\<rparr>))"
proof -
  from assms(2,3) have i: "findIndex (\<lambda>l. userId l = oid u) (likes d) = int (length ls)"
    by (simp add: findIndex_last)
  from assms(2) have "splice1 (int (length ls)) (likes d) = ls"
    by (simp add: splice1_last)
  with i assms(1) findById_save [OF assms(1), of "d\<lparr>likes := ls\<rparr>"]
  show ?thesis by (simp add: Project_like_def Let_def)
qed

text \<open>
  The two states the sequence of calls alternates between, for a list \<open>ls\<close> of likes
  of other principals: the likes are \<open>ls\<close>, or \<open>ls\<close> followed by one like of the
  principal.
\<close>

lemma Project_like_times_alternates:
  assumes "\<forall>l \<in> set ls. userId l \<noteq> oid u"
  shows "(findById ps pid = Inr (Some d) \<and> likes d = ls \<longrightarrow>
            (\<exists>d'. findById (Project_like_times u pid nows ps) pid = Inr (Some d') \<and>
                  (if even (length nows) then likes d' = ls
                   else \<exists>t. likes d' = ls @ [\<lparr>userId = oid u, timestamp = t\<rparr>]))) \<and>
         (findById ps pid = Inr (Some d) \<and>
          (\<exists>t. likes d = ls @ [\<lparr>userId = oid u, timestamp = t\<rparr>]) \<longrightarrow>
            (\<exists>d'. findById (Project_like_times u pid nows ps) pid = Inr (Some d') \<and>
                  (if even (length nows)
                   then \<exists>t. likes d' = ls @ [\<lparr>userId = oid u, timestamp = t\<rparr>]
                   else likes d' = ls)))"
proof (induction nows arbitrary: ps d)
  case Nil
  show ?case by simp
next
  case (Cons now nows)
  show ?case
  proof (intro conjI impI)
    assume a: "findById ps pid = Inr (Some d) \<and> likes d = ls"
    let ?d1 = "d\<lparr>likes := likes d @ [\<lparr>userId = oid u, timestamp = now\<rparr>]\<rparr>"
    from a assms have "findById (snd (Project_like u pid now ps)) pid = Inr (Some ?d1)"
      by (intro Project_like_adds) simp_all
    moreover from a have "\<exists>t. likes ?d1 = ls @ [\<lparr>userId = oid u, timestamp = t\<rparr>]" by simp
    ultimately obtain d' where
      "findById (Project_like_times u pid nows (snd (Project_like u pid now ps))) pid
         = Inr (Some d')"
      "if even (length nows) then \<exists>t. likes d' = ls @ [\<lparr>userId = oid u, timestamp = t\<rparr>]
       else likes d' = ls"
      using Cons.IH [of "snd (Project_like u pid now ps)" ?d1] by blast
    then show "\<exists>d'. findById (Project_like_times u pid (now # nows) ps) pid = Inr (Some d') \<and>
                  (if even (length (now # nows)) then likes d' = ls
                   else \<exists>t. likes d' = ls @ [\<lparr>userId = oid u, timestamp = t\<rparr>])"
      by (cases "even (length nows)") auto
  next
    assume a: "findById ps pid = Inr (Some d) \<and>
               (\<exists>t. likes d = ls @ [\<lparr>userId = oid u, timestamp = t\<rparr>])"
    then obtain t where t: "likes d = ls @ [\<lparr>userId = oid u, timestamp = t\<rparr>]" by blast
    let ?d1 = "d\<lparr>likes := ls\<rparr>"
    from a t assms have "findById (snd (Project_like u pid now ps)) pid = Inr (Some ?d1)"
      by (intro Project_like_removes [where t = t]) simp_all
    moreover have "likes ?d1 = ls" by simp
    ultimately obtain d' where
      "findById (Project_like_times u pid nows (snd (Project_like u pid now ps))) pid
         = Inr (Some d')"
      "if even (length nows) then likes d' = ls
       else \<exists>t. likes d' = ls @ [\<lparr>userId = oid u, timestamp = t\<rparr>]"
      using Cons.IH [of "snd (Project_like u pid now ps)" ?d1] by blast
    then show "\<exists>d'. findById (Project_like_times u pid (now # nows) ps) pid = Inr (Some d') \<and>
                  (if even (length (now # nows))
                   then \<exists>t. likes d' = ls @ [\<lparr>userId = oid u, timestamp = t\<rparr>]
                   else likes d' = ls)"
      by (cases "even (length nows)") auto
  qed
qed

text \<open>
  Claim C4. For a project and a principal with no like on it, after the like route has
  been called \<open>N\<close> times in sequence by that principal, the principal has
  \<open>N mod 2\<close> like entries on the project and the like count is the original count
  plus \<open>N mod 2\<close>: a call that finds the principal's like removes it and never adds
  a second one. After an even number of calls, two in particular, the likes of the
  project are the original likes.
\<close>

theorem like_toggle_parity:
  assumes "findById ps pid = Inr (Some d)" and "likes_of (oid u) d = 0"
  shows "\<exists>d'. findById (Project_like_times u pid nows ps) pid = Inr (Some d') \<and>
              likes_of (oid u) d' = length nows mod 2 \<and>
              length (likes d') = length (likes d) + length nows mod 2 \<and>
              (even (length nows) \<longrightarrow> likes d' = likes d)"
proof -
  from assms(2) have none: "\<forall>l \<in> set (likes d). userId l \<noteq> oid u"
    by (simp add: likes_of_zero)
  from Project_like_times_alternates [OF none, of ps pid d nows] assms(1)
  obtain d' where
    f: "findById (Project_like_times u pid nows ps) pid = Inr (Some d')" and
    s: "if even (length nows) then likes d' = likes d
        else \<exists>t. likes d' = likes d @ [\<lparr>userId = oid u, timestamp = t\<rparr>]"
    by blast
  show ?thesis
  proof (cases "even (length nows)")
    case True
    with s have "likes d' = likes d" by simp
    with True f assms(2) show ?thesis by (auto simp: likes_of_def)
  next
    case False
    with s obtain t where "likes d' = likes d @ [\<lparr>userId = oid u, timestamp = t\<rparr>]" by auto
    moreover from False have "length nows mod 2 = 1" by presburger
    ultimately show ?thesis using False f assms(2) by (auto simp: likes_of_def)
  qed
qed

text \<open>
  At the small store: Alice, who has no like on the first project (Bob has one), calls
  the route three times and then a fourth time.
\<close>

theorem like_toggle_parity_witness:
  "findById (projects store1) ''64b7f0c2a1b2c3d4e5f60731'' = Inr (Some proj1) \<and>
   likes_of (oid alice) proj1 = 0 \<and>
   map likes (Project_like_times alice ''64b7f0c2a1b2c3d4e5f60731'' [10, 20, 30] (projects store1))
     = [[\<lparr>userId = ''64b7f0c2a1b2c3d4e5f6071a'', timestamp = 5\<rparr>,
         \<lparr>userId = ''64b7f0c2a1b2c3d4e5f60719'', timestamp = 30\<rparr>], []] \<and>
   (\<exists>d'. findById (Project_like_times alice ''64b7f0c2a1b2c3d4e5f60731'' [10, 20, 30, 40]
                     (projects store1)) ''64b7f0c2a1b2c3d4e5f60731'' = Inr (Some d') \<and>
         likes_of (oid alice) d' = 0 \<and> likes d' = likes proj1)"
proof -
  have 1: "findById (projects store1) ''64b7f0c2a1b2c3d4e5f60731'' = Inr (Some proj1)"
    by (simp add: findById_def objectId_defs fixture_defs)
  have 2: "likes_of (oid alice) proj1 = 0"
    by (simp add: likes_of_def fixture_defs)
  have 3: "map likes (Project_like_times alice ''64b7f0c2a1b2c3d4e5f60731'' [10, 20, 30]
                        (projects store1))
     = [[\<lparr>userId = ''64b7f0c2a1b2c3d4e5f6071a'', timestamp = 5\<rparr>,
         \<lparr>userId = ''64b7f0c2a1b2c3d4e5f60719'', timestamp = 30\<rparr>], []]"
    by (simp add: Project_like_def findById_def save_def splice1_def Let_def objectId_defs
          fixture_defs)
  from like_toggle_parity [OF 1 2, of "[10, 20, 30, 40]"]
  have 4: "\<exists>d'. findById (Project_like_times alice ''64b7f0c2a1b2c3d4e5f60731'' [10, 20, 30, 40]
                     (projects store1)) ''64b7f0c2a1b2c3d4e5f60731'' = Inr (Some d') \<and>
         likes_of (oid alice) d' = 0 \<and> likes d' = likes proj1"
    by auto
  from 1 2 3 4 show ?thesis by blast
qed

section \<open>The visibility toggle\<close>

lemma Education_visibility_step:
  assumes "findById es pid = Inr (Some d)"
  shows "findById (snd (Education_visibility pid es)) pid
           = Inr (Some (d\<lparr>isVisible := \<not> isVisible d\<rparr>)) \<and>
         status (fst (Education_visibility pid es)) = 200"
  using assms findById_save [OF assms, of "d\<lparr>isVisible := \<not> isVisible d\<rparr>"]
  by (simp add: Education_visibility_def Let_def ok_message_def)

lemma Project_visibility_step:
  assumes "findById ps pid = Inr (Some d)"
  shows "findById (snd (Project_visibility pid ps)) pid
           = Inr (Some (d\<lparr>isVisible := \<not> isVisible d\<rparr>)) \<and>
         status (fst (Project_visibility pid ps)) = 200"
  using assms findById_save [OF assms, of "d\<lparr>isVisible := \<not> isVisible d\<rparr>"]
  by (simp add: Project_visibility_def Let_def ok_message_def)

text \<open>
  Claim C5. For an existing Education or Project record, one application of the
  visibility toggle succeeds and leaves the stored record with \<open>isVisible\<close> negated;
  a second application in sequence leaves it with its original value.
\<close>

theorem visibility_toggle_twice:
  "(findById es pid = Inr (Some e) \<longrightarrow>
      (\<exists>e1 e2. status (fst (Education_visibility pid es)) = 200 \<and>
               findById (snd (Education_visibility pid es)) pid = Inr (Some e1) \<and>
               isVisible e1 = (\<not> isVisible e) \<and>
               findById (snd (Education_visibility pid (snd (Education_visibility pid es)))) pid
                 = Inr (Some e2) \<and>
               isVisible e2 = isVisible e)) \<and>
   (findById ps pid = Inr (Some p) \<longrightarrow>
      (\<exists>p1 p2. status (fst (Project_visibility pid ps)) = 200 \<and>
               findById (snd (Project_visibility pid ps)) pid = Inr (Some p1) \<and>
               isVisible p1 = (\<not> isVisible p) \<and>
               findById (snd (Project_visibility pid (snd (Project_visibility pid ps)))) pid
                 = Inr (Some p2) \<and>
               isVisible p2 = isVisible p))"
proof (intro conjI impI)
  assume a: "findById es pid = Inr (Some e)"
  let ?e1 = "e\<lparr>isVisible := \<not> isVisible e\<rparr>"
  from Education_visibility_step [OF a]
  have 1: "findById (snd (Education_visibility pid es)) pid = Inr (Some ?e1)"
    and 0: "status (fst (Education_visibility pid es)) = 200" by simp_all
  from Education_visibility_step [OF 1]
  have 2: "findById (snd (Education_visibility pid (snd (Education_visibility pid es)))) pid
             = Inr (Some e)" by simp
  from 0 1 2 show "\<exists>e1 e2. status (fst (Education_visibility pid es)) = 200 \<and>
               findById (snd (Education_visibility pid es)) pid = Inr (Some e1) \<and>
               isVisible e1 = (\<not> isVisible e) \<and>
               findById (snd (Education_visibility pid (snd (Education_visibility pid es)))) pid
                 = Inr (Some e2) \<and>
               isVisible e2 = isVisible e" by simp
next
  assume a: "findById ps pid = Inr (Some p)"
  let ?p1 = "p\<lparr>isVisible := \<not> isVisible p\<rparr>"
  from Project_visibility_step [OF a]
  have 1: "findById (snd (Project_visibility pid ps)) pid = Inr (Some ?p1)"
    and 0: "status (fst (Project_visibility pid ps)) = 200" by simp_all
  from Project_visibility_step [OF 1]
  have 2: "findById (snd (Project_visibility pid (snd (Project_visibility pid ps)))) pid
             = Inr (Some p)" by simp
  from 0 1 2 show "\<exists>p1 p2. status (fst (Project_visibility pid ps)) = 200 \<and>
               findById (snd (Project_visibility pid ps)) pid = Inr (Some p1) \<and>
               isVisible p1 = (\<not> isVisible p) \<and>
               findById (snd (Project_visibility pid (snd (Project_visibility pid ps)))) pid
                 = Inr (Some p2) \<and>
               isVisible p2 = isVisible p" by simp
qed

text \<open>At the small store: the hidden education record and the visible project.\<close>

theorem visibility_toggle_twice_witness:
  "findById (educations store1) ''64b7f0c2a1b2c3d4e5f60722'' = Inr (Some edu2) \<and>
   findById (projects store1) ''64b7f0c2a1b2c3d4e5f60731'' = Inr (Some proj1) \<and>
   (\<exists>e1 e2. findById (snd (Education_visibility ''64b7f0c2a1b2c3d4e5f60722'' (educations store1)))
               ''64b7f0c2a1b2c3d4e5f60722'' = Inr (Some e1) \<and>
            isVisible e1 = (\<not> isVisible edu2) \<and>
            findById (snd (Education_visibility ''64b7f0c2a1b2c3d4e5f60722''
                        (snd (Education_visibility ''64b7f0c2a1b2c3d4e5f60722''
                                (educations store1)))))
               ''64b7f0c2a1b2c3d4e5f60722'' = Inr (Some e2) \<and>
            isVisible e2 = isVisible edu2) \<and>
   (\<exists>p1 p2. findById (snd (Project_visibility ''64b7f0c2a1b2c3d4e5f60731'' (projects store1)))
               ''64b7f0c2a1b2c3d4e5f60731'' = Inr (Some p1) \<and>
            isVisible p1 = (\<not> isVisible proj1) \<and>
            findById (snd (Project_visibility ''64b7f0c2a1b2c3d4e5f60731''
                        (snd (Project_visibility ''64b7f0c2a1b2c3d4e5f60731''
                                (projects store1)))))
               ''64b7f0c2a1b2c3d4e5f60731'' = Inr (Some p2) \<and>
            isVisible p2 = isVisible proj1)"
proof -
  have 1: "findById (educations store1) ''64b7f0c2a1b2c3d4e5f60722'' = Inr (Some edu2)"
    by (simp add: findById_def objectId_defs fixture_defs)
  have 2: "findById (projects store1) ''64b7f0c2a1b2c3d4e5f60731'' = Inr (Some proj1)"
    by (simp add: findById_def objectId_defs fixture_defs)
  from 1 2
    visibility_toggle_twice [where es = "educations store1" and e = edu2
      and pid = "''64b7f0c2a1b2c3d4e5f60722''"]
    visibility_toggle_twice [where ps = "projects store1" and p = proj1
      and pid = "''64b7f0c2a1b2c3d4e5f60731''"]
  show ?thesis by blast
qed

section \<open>Tokens that fail verification\<close>

text \<open>
  Claim C6, as stated, fails: a token that fails verification is rejected by
  \<open>protect\<close> but not by \<open>optionalAuth\<close>, which calls \<^verbatim>\<open>next()\<close> with no
  principal, so the public list of education records is served with status 200 to a
  request carrying an expired token.
\<close>

theorem optionalAuth_continues_on_expired_token:
  "token_of (with_cookie ''expired.jwt'') = Some ''expired.jwt'' \<and>
   verify1 ''expired.jwt'' = Inl TokenExpiredError \<and>
   (optionalAuth verify1 (users store1) (with_cookie ''expired.jwt'')
      :: education list response + user option) = Inr None \<and>
   fst (route_education_list verify1 by_sortOrder (with_cookie ''expired.jwt'') no_query store1)
     = ok [edu1] \<and>
   status (fst (route_education_list verify1 by_sortOrder (with_cookie ''expired.jwt'')
                  no_query store1)) = 200"
  by (simp add: route_education_list_def with_optionalAuth_def optionalAuth_def token_of_def
        truthy_def Education_list_def Education_list_query_def Education_matches_def
        isAdmin_def orDefault_def direction_def sort_docs_def limit_docs_def Let_def ok_def
        fixture_defs)

text \<open>
  Claim C6, amended. For a request whose token fails verification, whatever the
  reason (expired or malformed), \<open>protect\<close> answers 401 with the one message
  ``Token is invalid or expired.'', and \<open>optionalAuth\<close> continues the request with
  no principal attached; neither outcome depends on the reason.
\<close>

theorem failed_verification_by_mode:
  assumes "token_of req = Some t" and "t \<noteq> []" and "vt t = Inl e"
  shows "(protect vt us req :: 'a response + user)
           = Inl (fail 401 ''Token is invalid or expired.'') \<and>
         (optionalAuth vt us req :: 'a response + user option) = Inr None"
  using assms by (simp add: protect_def optionalAuth_def)

text \<open>An expired and a malformed token at the small store.\<close>

theorem failed_verification_by_mode_witness:
  "token_of (with_cookie ''expired.jwt'') = Some ''expired.jwt'' \<and>
   verify1 ''expired.jwt'' = Inl TokenExpiredError \<and>
   token_of (with_bearer ''garbage'') = Some ''garbage'' \<and>
   verify1 ''garbage'' = Inl JsonWebTokenError \<and>
   (protect verify1 (users store1) (with_cookie ''expired.jwt'') :: unit response + user)
     = protect verify1 (users store1) (with_bearer ''garbage'') \<and>
   (protect verify1 (users store1) (with_cookie ''expired.jwt'') :: unit response + user)
     = Inl (fail 401 ''Token is invalid or expired.'') \<and>
   (optionalAuth verify1 (users store1) (with_bearer ''garbage'') :: unit response + user option)
     = Inr None"
proof -
  have 1: "token_of (with_cookie ''expired.jwt'') = Some ''expired.jwt''"
    by (simp add: token_of_def with_cookie_def truthy_def)
  have 2: "verify1 ''expired.jwt'' = Inl TokenExpiredError" by (simp add: verify1_def)
  have 3: "token_of (with_bearer ''garbage'') = Some ''garbage''"
    by (simp add: token_of_def with_bearer_def truthy_def)
  have 4: "verify1 ''garbage'' = Inl JsonWebTokenError" by (simp add: verify1_def)
  have 5: "''expired.jwt'' \<noteq> []" "''garbage'' \<noteq> []" by simp_all
  from 1 2 3 4 5
    failed_verification_by_mode [where req = "with_cookie ''expired.jwt''"
      and t = "''expired.jwt''" and vt = verify1 and e = TokenExpiredError
      and us = "users store1" and 'a = unit]
    failed_verification_by_mode [where req = "with_bearer ''garbage''"
      and t = "''garbage''" and vt = verify1 and e = JsonWebTokenError
      and us = "users store1" and 'a = unit]
  show ?thesis by simp
qed

section \<open>Where the token is read from\<close>

text \<open>
  Claim C7. When the request carries a token in the \<^verbatim>\<open>token\<close> cookie (a non-empty
  value), both middlewares use the cookie's token and the Authorization header has no
  influence on their outcome. The header decides the token only when no cookie token is
  present.
\<close>

theorem cookie_precedence:
  "(truthy (cookies_token req) \<longrightarrow>
      token_of req = cookies_token req \<and>
      (protect vt us (req\<lparr>authorization := h\<rparr>) :: 'a response + user) = protect vt us req \<and>
      (optionalAuth vt us (req\<lparr>authorization := h\<rparr>) :: 'a response + user option)
        = optionalAuth vt us req) \<and>
   (token_of (req\<lparr>authorization := h\<rparr>) \<noteq> token_of req \<longrightarrow> \<not> truthy (cookies_token req))"
  by (simp add: token_of_def protect_def optionalAuth_def)

text \<open>
  Alice's token in the cookie and the admin's in the header: the principal is Alice.
  Without the cookie the header's token is used and the principal is the admin.
\<close>

theorem cookie_precedence_witness:
  "truthy (cookies_token \<lparr>cookies_token = Some ''alice.jwt'', authorization = None\<rparr>) \<and>
   token_of \<lparr>cookies_token = Some ''alice.jwt'', authorization = Some ''Bearer admin.jwt''\<rparr>
     = Some ''alice.jwt'' \<and>
   (protect verify1 (users store1)
      \<lparr>cookies_token = Some ''alice.jwt'', authorization = Some ''Bearer admin.jwt''\<rparr>
      :: unit response + user) = Inr (select_minus_password alice) \<and>
   (optionalAuth verify1 (users store1)
      \<lparr>cookies_token = Some ''alice.jwt'', authorization = Some ''Bearer admin.jwt''\<rparr>
      :: unit response + user option) = Inr (Some (select_minus_password alice)) \<and>
   (protect verify1 (users store1)
      \<lparr>cookies_token = None, authorization = Some ''Bearer admin.jwt''\<rparr>
      :: unit response + user) = Inr (select_minus_password admin1)"
proof -
  let ?r = "\<lparr>cookies_token = Some ''alice.jwt'', authorization = None\<rparr>"
  have 1: "truthy (cookies_token ?r)" by (simp add: truthy_def)
  have 2: "(protect verify1 (users store1) ?r :: unit response + user)
             = Inr (select_minus_password alice)"
    by (simp add: protect_def token_of_def truthy_def findById_def objectId_defs fixture_defs)
  have 3: "(optionalAuth verify1 (users store1) ?r :: unit response + user option)
             = Inr (Some (select_minus_password alice))"
    by (simp add: optionalAuth_def token_of_def truthy_def findById_def objectId_defs
          fixture_defs)
  have 4: "(protect verify1 (users store1)
              \<lparr>cookies_token = None, authorization = Some ''Bearer admin.jwt''\<rparr>
              :: unit response + user) = Inr (select_minus_password admin1)"
    by (simp add: protect_def token_of_def truthy_def findById_def objectId_defs fixture_defs)
  from 1 2 3 4
    cookie_precedence [where req = ?r and h = "Some ''Bearer admin.jwt''" and vt = verify1
      and us = "users store1" and 'a = unit]
  show ?thesis by simp
qed

section \<open>Pagination\<close>










section \<open>The contact form example\<close>

text \<open>
  Claim C9, as stated, fails: for the body \<^verbatim>\<open>{name:"Jo", email:"bad", subject:"Hi",
  message:"short"}\<close> the response is 400, but its errors are for \<^verbatim>\<open>email\<close>,
  \<^verbatim>\<open>subject\<close> and \<^verbatim>\<open>message\<close>. There is no error for \<^verbatim>\<open>name\<close>: the name
  validator asks for 2 to 100 characters and ``Jo'' has 2.
\<close>

theorem contact_example_has_no_name_error:
  "status (fst (Contact_create isEmail_shape id ''64b7f0c2a1b2c3d4e5f60799'' None
                  example_body [])) = 400 \<and>
   map path (errors (fst (Contact_create isEmail_shape id ''64b7f0c2a1b2c3d4e5f60799'' None
                            example_body [])))
     = [''email'', ''subject'', ''message''] \<and>
   ''name'' \<notin> set (map path (errors (fst (Contact_create isEmail_shape id
                                           ''64b7f0c2a1b2c3d4e5f60799'' None example_body []))))"
  by (simp add: Contact_create_def contact_validators_def isLength_def trim_def isSpace_def
        orDefault_def isEmail_shape_def schema_email_def validation_failed_def Let_def
        example_body_def)

text \<open>
  Claim C9, amended. With an e-mail check that refuses ``bad'', the response to the
  example body is 400 and its errors are, in this order, the format error of
  \<^verbatim>\<open>email\<close>, the length error of \<^verbatim>\<open>subject\<close> (5 to 200 characters) and the
  length error of \<^verbatim>\<open>message\<close> (10 to 1000 characters); nothing is stored.
\<close>

theorem contact_example_errors:
  assumes "\<not> isEmail ''bad''"
  shows "Contact_create isEmail normalizeEmail newId ip example_body cs =
           (validation_failed
              [\<lparr>path = ''email'', msg = ''Please provide a valid email''\<rparr>,
               \<lparr>path = ''subject'', msg = ''Subject must be between 5 and 200 characters''\<rparr>,
               \<lparr>path = ''message'', msg = ''Message must be between 10 and 1000 characters''\<rparr>],
            cs) \<and>
         status (fst (Contact_create isEmail normalizeEmail newId ip example_body cs)) = 400"
  using assms
  by (simp add: Contact_create_def contact_validators_def isLength_def trim_def isSpace_def
        orDefault_def validation_failed_def Let_def example_body_def)

theorem contact_example_errors_witness:
  "\<not> isEmail_shape ''bad'' \<and>
   Contact_create isEmail_shape id ''64b7f0c2a1b2c3d4e5f60799'' None example_body [contact1] =
     (validation_failed
        [\<lparr>path = ''email'', msg = ''Please provide a valid email''\<rparr>,
         \<lparr>path = ''subject'', msg = ''Subject must be between 5 and 200 characters''\<rparr>,
         \<lparr>path = ''message'', msg = ''Message must be between 10 and 1000 characters''\<rparr>],
      [contact1])"
proof -
  have 1: "\<not> isEmail_shape ''bad''"
    by (simp add: isEmail_shape_def schema_email_def)
  from 1 contact_example_errors [where isEmail = isEmail_shape and normalizeEmail = id
      and newId = "''64b7f0c2a1b2c3d4e5f60799''" and ip = None and cs = "[contact1]"]
  show ?thesis by simp
qed

section \<open>User responses carry no password\<close>

lemma protect_no_password:
  "(protect vt us req :: 'a response + user) = Inr u \<Longrightarrow> password u = None"
  by (auto simp: protect_def select_minus_password_def
           split: option.splits sum.splits if_splits)

lemma optionalAuth_no_password:
  "(optionalAuth vt us req :: 'a response + user option) = Inr (Some u) \<Longrightarrow> password u = None"
  by (auto simp: optionalAuth_def select_minus_password_def
           split: option.splits sum.splits if_splits)

lemma User_all_no_password:
  "data (User_all rx cmp q us) = Some pg \<Longrightarrow> list_all (\<lambda>u. password u = None) (docs pg)"
  by (auto simp: User_all_def Let_def ok_def fail_def select_minus_password_def list_all_iff
           split: option.splits sum.splits if_splits)

lemma User_get_no_password: "data (User_get pid us) = Some u \<Longrightarrow> password u = None"
  by (auto simp: User_get_def ok_def fail_def select_minus_password_def
           split: option.splits sum.splits)

lemma User_role_no_password:
  "data (fst (User_role a pid r us)) = Some u \<Longrightarrow> password u = None"
  by (auto simp: User_role_def ok_message_def fail_def validation_failed_def
           select_minus_password_def split: option.splits sum.splits if_splits prod.splits)

lemma User_status_no_password:
  "data (fst (User_status a pid v us)) = Some u \<Longrightarrow> password u = None"
  by (auto simp: User_status_def ok_message_def fail_def validation_failed_def
           select_minus_password_def split: option.splits sum.splits if_splits prod.splits)

text \<open>
  Claim C10. The principal that \<open>protect\<close> or \<open>optionalAuth\<close> attaches to the
  request, the users in the data of GET /api/user/all and GET /api/user/:id, and the user
  in the data of the role and status updates are all without the password field: each
  of these queries and updates selects the user with the password excluded.
\<close>

theorem user_responses_exclude_password:
  "((protect vt us req :: 'a response + user) = Inr u \<longrightarrow> password u = None) \<and>
   ((optionalAuth vt us req :: 'a response + user option) = Inr (Some u) \<longrightarrow>
      password u = None) \<and>
   (data (User_all rx cmp q us) = Some pg \<longrightarrow> list_all (\<lambda>x. password x = None) (docs pg)) \<and>
   (data (User_get pid us) = Some u \<longrightarrow> password u = None) \<and>
   (data (fst (User_role a pid r us)) = Some u \<longrightarrow> password u = None) \<and>
   (data (fst (User_status a pid v us)) = Some u \<longrightarrow> password u = None)"
  using protect_no_password [of vt us req u] optionalAuth_no_password [of vt us req u]
    User_all_no_password [of rx cmp q us pg] User_get_no_password [of pid us u]
    User_role_no_password [of a pid r us u] User_status_no_password [of a pid v us u]
  by blast

text \<open>
  At the small store, where every stored user has a password hash: the admin reads
  Alice by her id and promotes her, and each response carries her without it.
\<close>

theorem user_responses_exclude_password_witness:
  "list_all (\<lambda>x. password x \<noteq> None) (users store1) \<and>
   (protect verify1 (users store1) (with_cookie ''admin.jwt'') :: unit response + user)
     = Inr (admin1\<lparr>password := None\<rparr>) \<and>
   data (User_get ''64b7f0c2a1b2c3d4e5f60719'' (users store1)) = Some (alice\<lparr>password := None\<rparr>) \<and>
   data (fst (User_role admin1 ''64b7f0c2a1b2c3d4e5f60719'' (Some ''admin'') (users store1)))
     = Some (alice\<lparr>password := None, role := ''admin''\<rparr>) \<and>
   password (admin1\<lparr>password := None\<rparr>) = None \<and>
   password (alice\<lparr>password := None, role := ''admin''\<rparr>) = None"
proof -
  have 0: "list_all (\<lambda>x. password x \<noteq> None) (users store1)"
    by (simp add: fixture_defs)
  have 1: "(protect verify1 (users store1) (with_cookie ''admin.jwt'') :: unit response + user)
             = Inr (admin1\<lparr>password := None\<rparr>)"
    by (simp add: protect_def token_of_def truthy_def findById_def objectId_defs
          select_minus_password_def fixture_defs)
  have 2: "data (User_get ''64b7f0c2a1b2c3d4e5f60719'' (users store1))
             = Some (alice\<lparr>password := None\<rparr>)"
    by (simp add: User_get_def findById_def objectId_defs select_minus_password_def ok_def
          fixture_defs)
  have 3: "data (fst (User_role admin1 ''64b7f0c2a1b2c3d4e5f60719'' (Some ''admin'')
                        (users store1)))
             = Some (alice\<lparr>password := None, role := ''admin''\<rparr>)"
    by (simp add: User_role_def findByIdAndUpdate_def save_def objectId_defs orDefault_def
          select_minus_password_def ok_message_def fixture_defs)
  from 1 user_responses_exclude_password [where vt = verify1 and us = "users store1"
      and req = "with_cookie ''admin.jwt''" and u = "admin1\<lparr>password := None\<rparr>" and 'a = unit]
  have 4: "password (admin1\<lparr>password := None\<rparr>) = None" by blast
  from 3 user_responses_exclude_password [where a = admin1 and us = "users store1"
      and pid = "''64b7f0c2a1b2c3d4e5f60719''" and r = "Some ''admin''"
      and u = "alice\<lparr>password := None, role := ''admin''\<rparr>"]
  have 5: "password (alice\<lparr>password := None, role := ''admin''\<rparr>) = None" by blast
  from 0 1 2 3 4 5 show ?thesis by simp
qed

end
